theory Spec2Isabelle
  imports Complex_Main "HOL-Library.Word"
begin

unbundle bit_operations_syntax

section \<open>Data model\<close>

text \<open>
  The embedding follows pilot.c, the pilot headers, outfit.h and ai.c. A C \<^verbatim>\<open>double\<close> is
  modelled as a real number (exact arithmetic, no rounding, no NaN), an \<^verbatim>\<open>unsigned int\<close>
  and the \<^verbatim>\<open>uint32_t\<close> flag set as a 32-bit word, and an \<^verbatim>\<open>int\<close> counter as an
  integer. A pointer to a struct that is only read is modelled by the struct's value,
  \<^verbatim>\<open>NULL\<close> by \<open>None\<close>.
\<close>

subsection \<open>Physics solid (physics.h is not part of the sources; only the fields pilot.c uses)\<close>

record Vector2d =
  vx :: real
  vy :: real

record Solid =
  mass :: real
  dir :: real
  dir_vel :: real
  vel :: Vector2d
  pos :: Vector2d
  force_x :: real

text \<open>
  Modelled from the spec: physics.c is not under src/. \<^verbatim>\<open>vect_cadd\<close> adds cartesian
  components to a vector (the knockback impulse "applied to velocity").
\<close>

definition vect_cadd :: "Vector2d \<Rightarrow> real \<Rightarrow> real \<Rightarrow> Vector2d" where
  "vect_cadd v x y = v\<lparr>vx := vx v + x, vy := vy v + y\<rparr>"

subsection \<open>Outfits (outfit.h)\<close>

datatype OutfitType =
    OUTFIT_TYPE_NULL | OUTFIT_TYPE_BOLT | OUTFIT_TYPE_BEAM
  | OUTFIT_TYPE_TURRET_BOLT | OUTFIT_TYPE_TURRET_BEAM
  | OUTFIT_TYPE_LAUNCHER | OUTFIT_TYPE_AMMO
  | OUTFIT_TYPE_TURRET_LAUNCHER | OUTFIT_TYPE_TURRET_AMMO
  | OUTFIT_TYPE_MODIFCATION | OUTFIT_TYPE_AFTERBURNER | OUTFIT_TYPE_JAMMER
  | OUTFIT_TYPE_FIGHTER_BAY | OUTFIT_TYPE_FIGHTER
  | OUTFIT_TYPE_MAP | OUTFIT_TYPE_LICENSE | OUTFIT_TYPE_SENTINEL

datatype DamageType =
    DAMAGE_TYPE_NULL | DAMAGE_TYPE_ENERGY | DAMAGE_TYPE_KINETIC
  | DAMAGE_TYPE_ION | DAMAGE_TYPE_RADIATION | DAMAGE_TYPE_EMP

record OutfitModificationData =
  mod_thrust :: real
  mod_thrust_rel :: real
  mod_turn :: real
  mod_turn_rel :: real
  mod_speed :: real
  mod_speed_rel :: real
  mod_armour :: real
  mod_armour_regen :: real
  mod_shield :: real
  mod_shield_regen :: real
  mod_energy :: real
  mod_energy_regen :: real
  mod_cargo :: real
  mod_mass_rel :: real
  mod_fuel :: real

text \<open>
  An outfit. The type-dependent union \<^verbatim>\<open>u\<close> is read by pilot.c only through the
  accessors of outfit.c (\<^verbatim>\<open>outfit_delay\<close>, \<^verbatim>\<open>outfit_energy\<close>, ...), which are not under
  src/: the record holds what each accessor returns for this outfit. \<open>ammo_ai\<close> is
  \<^verbatim>\<open>outfit_ammo(o)\<close> reduced to the one field of the ammunition that pilot.c reads
  (\<^verbatim>\<open>u.lau.ammo->u.amm.ai\<close>); \<open>None\<close> is \<^verbatim>\<open>NULL\<close>.
\<close>

record Outfit =
  outfit_name :: string
  outfit_mass :: real
  properties :: "32 word"
  otype :: OutfitType
  outfit_delay :: real
  outfit_energy :: real
  outfit_cpu :: real
  outfit_range :: real
  outfit_speed :: real
  outfit_amount :: int
  ammo_ai :: "int option"
  u_mod :: OutfitModificationData
  afb_speed :: real
  afb_energy :: real
  jam_range_o :: real
  jam_chance_o :: real
  jam_energy :: real

definition OUTFIT_PROP_WEAP_SECONDARY :: "32 word" where
  "OUTFIT_PROP_WEAP_SECONDARY = 1"

definition outfit_isProp :: "Outfit \<Rightarrow> 32 word \<Rightarrow> bool" where
  "outfit_isProp out p = (properties out AND p \<noteq> 0)"

text \<open>
  Modelled from the spec: outfit.c is not under src/. The type predicates classify an
  outfit by its \<^verbatim>\<open>OutfitType\<close> ("bolt", "beam", "missile", "fighter-bay" module kinds),
  a turret variant counting as its kind.
\<close>

definition outfit_isBolt :: "Outfit \<Rightarrow> bool" where
  "outfit_isBolt out = (otype out = OUTFIT_TYPE_BOLT \<or> otype out = OUTFIT_TYPE_TURRET_BOLT)"

definition outfit_isBeam :: "Outfit \<Rightarrow> bool" where
  "outfit_isBeam out = (otype out = OUTFIT_TYPE_BEAM \<or> otype out = OUTFIT_TYPE_TURRET_BEAM)"

definition outfit_isLauncher :: "Outfit \<Rightarrow> bool" where
  "outfit_isLauncher out =
     (otype out = OUTFIT_TYPE_LAUNCHER \<or> otype out = OUTFIT_TYPE_TURRET_LAUNCHER)"

definition outfit_isAmmo :: "Outfit \<Rightarrow> bool" where
  "outfit_isAmmo out = (otype out = OUTFIT_TYPE_AMMO \<or> otype out = OUTFIT_TYPE_TURRET_AMMO)"

definition outfit_isTurret :: "Outfit \<Rightarrow> bool" where
  "outfit_isTurret out =
     (otype out = OUTFIT_TYPE_TURRET_BOLT \<or> otype out = OUTFIT_TYPE_TURRET_BEAM
      \<or> otype out = OUTFIT_TYPE_TURRET_LAUNCHER)"

definition outfit_isWeapon :: "Outfit \<Rightarrow> bool" where
  "outfit_isWeapon out = (otype out = OUTFIT_TYPE_BOLT \<or> otype out = OUTFIT_TYPE_BEAM)"

definition outfit_isMod :: "Outfit \<Rightarrow> bool" where
  "outfit_isMod out = (otype out = OUTFIT_TYPE_MODIFCATION)"

definition outfit_isAfterburner :: "Outfit \<Rightarrow> bool" where
  "outfit_isAfterburner out = (otype out = OUTFIT_TYPE_AFTERBURNER)"

definition outfit_isJammer :: "Outfit \<Rightarrow> bool" where
  "outfit_isJammer out = (otype out = OUTFIT_TYPE_JAMMER)"

definition outfit_isFighterBay :: "Outfit \<Rightarrow> bool" where
  "outfit_isFighterBay out = (otype out = OUTFIT_TYPE_FIGHTER_BAY)"

definition outfit_isFighter :: "Outfit \<Rightarrow> bool" where
  "outfit_isFighter out = (otype out = OUTFIT_TYPE_FIGHTER)"

subsection \<open>Pilots (pilot.h and the Pilot struct)\<close>

datatype PilotOutfitState = PILOT_OUTFIT_OFF | PILOT_OUTFIT_WARMUP | PILOT_OUTFIT_ON

text \<open>
  An outfit slot. The union \<^verbatim>\<open>u\<close> (\<^verbatim>\<open>beamid\<close> for beams, \<^verbatim>\<open>ammo\<close> for launchers
  and fighter bays) is flattened: \<open>ammo_outfit\<close> is \<^verbatim>\<open>u.ammo.outfit\<close>, and so on.
\<close>

record PilotOutfitSlot =
  outfit :: "Outfit option"
  state :: PilotOutfitState
  otimer :: real
  quantity :: int
  beamid :: int
  ammo_outfit :: "Outfit option"
  ammo_quantity :: int
  ammo_deployed :: int

record PilotCommodity =
  commodity :: string
  cargo_quantity :: int
  cargo_id :: "32 word"

record PilotHook =
  hook_type :: int
  hook_id :: int

record Ship =
  ship_name :: string
  ship_mass :: real
  ship_thrust :: real
  ship_turn :: real
  ship_speed :: real
  ship_cpu :: real
  ship_armour :: real
  ship_armour_regen :: real
  ship_shield :: real
  ship_shield_regen :: real
  ship_energy :: real
  ship_energy_regen :: real
  ship_fuel :: real
  ship_cap_cargo :: int

text \<open>A task of the behaviour stack (ai.h); the chain through \<^verbatim>\<open>next\<close> is a list.\<close>

datatype TaskData = TYPE_NULL | TYPE_INT "32 word"

record Task =
  task_name :: string
  dat :: TaskData

text \<open>
  The pilot. The three slot arrays are lists; the array \<^verbatim>\<open>outfits\<close> of pointers into
  them is the function \<open>outfits\<close> below, and a pointer to a slot (\<^verbatim>\<open>secondary\<close>,
  \<^verbatim>\<open>afterburner\<close>) is an index into it. The linked task chain is a list whose head
  is the current task; \<^verbatim>\<open>NULL\<close> is the empty list.
\<close>

record Pilot =
  pid :: "32 word"
  faction :: int
  ship :: Ship
  solid :: Solid
  mass_cargo :: real
  mass_outfit :: real
  cpu :: real
  cpu_max :: real
  thrust :: real
  speed :: real
  turn :: real
  turn_base :: real
  armour :: real
  shield :: real
  fuel :: real
  armour_max :: real
  shield_max :: real
  fuel_max :: real
  armour_regen :: real
  shield_regen :: real
  energy :: real
  energy_max :: real
  energy_regen :: real
  energy_tau :: real
  outfit_low :: "PilotOutfitSlot list"
  outfit_medium :: "PilotOutfitSlot list"
  outfit_high :: "PilotOutfitSlot list"
  secondary :: "nat option"
  afterburner :: "nat option"
  jam_range :: real
  jam_chance :: real
  commodities :: "PilotCommodity list"
  cargo_free :: int
  weap_range :: real
  weap_speed :: real
  flags :: "32 word"
  ptimer :: real
  lockons :: int
  player_damage :: real
  engine_glow :: real
  hooks :: "PilotHook list"
  target :: "32 word"
  tcontrol :: real
  timer :: "real list"
  task :: "Task list"

definition outfits :: "Pilot \<Rightarrow> PilotOutfitSlot list" where
  "outfits p = outfit_low p @ outfit_medium p @ outfit_high p"

definition PLAYER_ID :: "32 word" where
  "PLAYER_ID = 1"

definition PILOT_DISABLED_ARMOR :: real where
  "PILOT_DISABLED_ARMOR = 0.3"

definition HYPERSPACE_ENGINE_DELAY :: real where
  "HYPERSPACE_ENGINE_DELAY = 3"

definition HYPERSPACE_FLY_DELAY :: real where
  "HYPERSPACE_FLY_DELAY = 5"

definition HYPERSPACE_THRUST :: real where
  "HYPERSPACE_THRUST = 2000"

definition PILOT_HOSTILE_DECAY :: real where
  "PILOT_HOSTILE_DECAY = 0.005"

definition PILOT_HOOK_DEATH :: int where
  "PILOT_HOOK_DEATH = 1"

definition PILOT_HOOK_DISABLE :: int where
  "PILOT_HOOK_DISABLE = 3"

definition PILOT_HOOK_JUMP :: int where
  "PILOT_HOOK_JUMP = 4"

definition PILOT_PLAYER :: "32 word" where
  "PILOT_PLAYER = push_bit 0 1"

definition PILOT_EMPTY :: "32 word" where
  "PILOT_EMPTY = push_bit 5 1"

definition PILOT_HASTURRET :: "32 word" where
  "PILOT_HASTURRET = push_bit 8 1"

definition PILOT_HASBEAMS :: "32 word" where
  "PILOT_HASBEAMS = push_bit 9 1"

definition PILOT_HOSTILE :: "32 word" where
  "PILOT_HOSTILE = push_bit 11 1"

definition PILOT_FRIENDLY :: "32 word" where
  "PILOT_FRIENDLY = push_bit 12 1"

definition PILOT_AFTERBURNER :: "32 word" where
  "PILOT_AFTERBURNER = push_bit 14 1"

definition PILOT_HYP_PREP :: "32 word" where
  "PILOT_HYP_PREP = push_bit 15 1"

definition PILOT_HYP_BEGIN :: "32 word" where
  "PILOT_HYP_BEGIN = push_bit 16 1"

definition PILOT_HYPERSPACE :: "32 word" where
  "PILOT_HYPERSPACE = push_bit 17 1"

definition PILOT_BOARDING :: "32 word" where
  "PILOT_BOARDING = push_bit 21 1"

definition PILOT_REFUELING :: "32 word" where
  "PILOT_REFUELING = push_bit 24 1"

definition PILOT_REFUELBOARDING :: "32 word" where
  "PILOT_REFUELBOARDING = push_bit 25 1"

definition PILOT_DISABLED :: "32 word" where
  "PILOT_DISABLED = push_bit 26 1"

definition PILOT_DEAD :: "32 word" where
  "PILOT_DEAD = push_bit 27 1"

definition PILOT_DEATH_SOUND :: "32 word" where
  "PILOT_DEATH_SOUND = push_bit 28 1"

definition PILOT_EXPLODED :: "32 word" where
  "PILOT_EXPLODED = push_bit 29 1"

definition PILOT_DELETE :: "32 word" where
  "PILOT_DELETE = push_bit 30 1"

definition pilot_isFlag :: "Pilot \<Rightarrow> 32 word \<Rightarrow> bool" where
  "pilot_isFlag p f = (flags p AND f \<noteq> 0)"

definition pilot_setFlag :: "Pilot \<Rightarrow> 32 word \<Rightarrow> Pilot" where
  "pilot_setFlag p f = p\<lparr>flags := flags p OR f\<rparr>"

definition pilot_rmFlag :: "Pilot \<Rightarrow> 32 word \<Rightarrow> Pilot" where
  "pilot_rmFlag p f = p\<lparr>flags := flags p AND NOT f\<rparr>"

definition pilot_isDisabled :: "Pilot \<Rightarrow> bool" where
  "pilot_isDisabled p = pilot_isFlag p PILOT_DISABLED"


text \<open>Conversion of a C double to an integer type: truncation towards zero.\<close>

definition c_trunc :: "real \<Rightarrow> int" where
  "c_trunc r = (if 0 \<le> r then \<lfloor>r\<rfloor> else \<lceil>r\<rceil>)"

section \<open>Combat resolver (pilot.c)\<close>

text \<open>
  What the pilot code does outside the pilot it works on: calls into subsystems whose
  sources are not under src/ (music, hooks, player, faction standing, special effects)
  are recorded as events, in the order of the calls. \<open>HookRun t i\<close> is the call
  \<^verbatim>\<open>hook_runID(i)\<close> that \<^verbatim>\<open>pilot_runHook\<close> makes for a hook of type \<open>t\<close>.
\<close>

datatype event =
    PlayerAbortAutonav string
  | MusicChoose string
  | HookRun int int
  | PlayerDead
  | FactionModPlayer int int
  | SpfxShake real
  | PlayerDestroyed
  | SoundPlayPos
  | ExplExplode
  | DebrisAdd
  | CommodityJettison string int
  | SpfxAdd
  | WeaponAdd string
  | BeamStart string
  | EscortCreate
  | PlayerPlaySound string
  | PlayerBrokeHyperspace
  | PlayerUpdateSpecific
  | Warn string

text \<open>The globals of player.c that pilot.c updates, and the event trace.\<close>

record World =
  player_enemies :: int
  player_crating :: real
  events :: "event list"

definition emit :: "event \<Rightarrow> World \<Rightarrow> World" where
  "emit e g = g\<lparr>events := events g @ [e]\<rparr>"

text \<open>
  What a call of \<^verbatim>\<open>pilot_hit\<close> reads from its environment. \<open>calcDamage\<close> is
  \<^verbatim>\<open>outfit_calcDamage\<close> of outfit.c (not under src/), giving the shield damage, the
  armour damage and the knockback factor; \<open>p_is_player\<close> is the pointer comparison
  \<^verbatim>\<open>p == player\<close>, \<open>player_flags\<close> the flags of \<^verbatim>\<open>*player\<close> when that is another
  pilot; \<open>pilot_get_faction i\<close> is the faction of \<^verbatim>\<open>pilot_get(i)\<close>, \<open>None\<close> when that
  is \<^verbatim>\<open>NULL\<close>; \<open>FACTION_PLAYER\<close>, \<open>SHAKE_MAX\<close> and \<open>areEnemies\<close> come from faction.h,
  spfx.h and faction.c.
\<close>

record HitEnv =
  calcDamage :: "DamageType \<Rightarrow> real \<Rightarrow> real \<times> real \<times> real"
  p_is_player :: bool
  player_flags :: "32 word"
  pilot_get_faction :: "32 word \<Rightarrow> int option"
  FACTION_PLAYER :: int
  SHAKE_MAX :: real
  areEnemies :: "int \<Rightarrow> int \<Rightarrow> bool"

definition pilot_isHostile :: "HitEnv \<Rightarrow> Pilot \<Rightarrow> bool" where
  "pilot_isHostile env p =
     (if pilot_isFlag p PILOT_FRIENDLY then False
      else if pilot_isFlag p PILOT_HOSTILE \<or> areEnemies env (FACTION_PLAYER env) (faction p)
      then True
      else False)"

definition pilot_rmHostile :: "Pilot \<Rightarrow> World \<Rightarrow> Pilot \<times> World" where
  "pilot_rmHostile p g =
     (if pilot_isFlag p PILOT_HOSTILE then
        (let g1 = (if \<not> pilot_isDisabled p then g\<lparr>player_enemies := player_enemies g - 1\<rparr>
                   else g);
             p1 = pilot_rmFlag p PILOT_HOSTILE;
             g2 = (if player_enemies g1 \<le> 0
                   then (emit (MusicChoose ''ambient'') g1)\<lparr>player_enemies := 0\<rparr>
                   else g1)
         in (p1, g2))
      else (p, g))"

definition pilot_runHook :: "Pilot \<Rightarrow> int \<Rightarrow> World \<Rightarrow> World" where
  "pilot_runHook p ht g =
     g\<lparr>events := events g @
          map (\<lambda>h. HookRun ht (hook_id h)) (filter (\<lambda>h. hook_type h = ht) (hooks p))\<rparr>"

definition pilot_dead :: "Pilot \<Rightarrow> World \<Rightarrow> Pilot \<times> World" where
  "pilot_dead p g =
     (if pilot_isFlag p PILOT_DEAD then (p, g)
      else
        (let g1 = (if pid p = PLAYER_ID then emit PlayerDead g else g);
             p1 = p\<lparr>timer := (timer p)[0 := 0]\<rparr>;
             p2 = p1\<lparr>ptimer := 1 + sqrt (10 * armour_max p1 * shield_max p1) / 1500\<rparr>;
             p3 = p2\<lparr>timer := (timer p2)[1 := 0]\<rparr>;
             p4 = (if pilot_isFlag p3 PILOT_HYP_PREP then pilot_rmFlag p3 PILOT_HYP_PREP else p3);
             p5 = (if pilot_isFlag p4 PILOT_HYP_BEGIN then pilot_rmFlag p4 PILOT_HYP_BEGIN else p4);
             p6 = (if pilot_isFlag p5 PILOT_HYPERSPACE then pilot_rmFlag p5 PILOT_HYPERSPACE
                   else p5);
             p7 = pilot_setFlag p6 PILOT_DEAD
         in (p7, pilot_runHook p7 PILOT_HOOK_DEATH g1)))"

text \<open>
  The four-way damage split of \<^verbatim>\<open>pilot_hit\<close>: the applied damage \<^verbatim>\<open>dmg\<close>, the
  damage modulator \<^verbatim>\<open>dam_mod\<close> and the pilot with its shield and armour updated.
\<close>

definition hit_absorb :: "Pilot \<Rightarrow> DamageType \<Rightarrow> real \<Rightarrow> real \<Rightarrow> real \<times> real \<times> Pilot" where
  "hit_absorb p dtype damage_shield damage_armour =
     (if pilot_isDisabled p \<and> dtype = DAMAGE_TYPE_EMP then (0, 0, p)
      else if shield p - damage_shield > 0 then
        (damage_shield, damage_shield / shield_max p, p\<lparr>shield := shield p - damage_shield\<rparr>)
      else if shield p > 0 then
        (shield p + (1 - shield p / damage_shield) * damage_armour,
         (damage_shield + damage_armour) / ((shield_max p + armour_max p) / 2),
         p\<lparr>armour := armour p - (1 - shield p / damage_shield) * damage_armour, shield := 0\<rparr>)
      else if armour p > 0 then
        (damage_armour, 0, p\<lparr>armour := armour p - damage_armour\<rparr>)
      else (0, 0, p))"

text \<open>The disabling block of \<^verbatim>\<open>pilot_hit\<close> ("Disabled always run before dead").\<close>

definition hit_disable :: "HitEnv \<Rightarrow> Pilot \<Rightarrow> 32 word \<Rightarrow> World \<Rightarrow> Pilot \<times> World" where
  "hit_disable env p shooter g =
     (if \<not> pilot_isFlag p PILOT_DISABLED \<and> \<not> p_is_player env
         \<and> armour p < PILOT_DISABLED_ARMOR * ship_armour (ship p) then
        (let h = (if pilot_isHostile env p then (1::int) else 0);
             (p1, g1) = pilot_rmHostile p g;
             p2 = (if h = 1 then pilot_setFlag p1 PILOT_HOSTILE else p1);
             g2 = (case pilot_get_faction env shooter of
                     None \<Rightarrow> g1
                   | Some f \<Rightarrow>
                       if f = FACTION_PLAYER env then
                         (let md = c_trunc (ship_mass (ship p2) powr 0.4 - 1)
                          in g1\<lparr>player_crating := player_crating g1 + real_of_int (2 * md)\<rparr>)
                       else g1);
             p3 = pilot_setFlag p2 PILOT_DISABLED
         in (p3, pilot_runHook p3 PILOT_HOOK_DISABLE g2))
      else (p, g))"

text \<open>
  The block "officially dead" and the minor effects after it: the pilot, the world and
  the final \<^verbatim>\<open>dam_mod\<close>.
\<close>

definition hit_dead ::
  "HitEnv \<Rightarrow> Pilot \<Rightarrow> 32 word \<Rightarrow> real \<Rightarrow> real \<Rightarrow> World \<Rightarrow> Pilot \<times> World \<times> real" where
  "hit_dead env p shooter damage_armour dam_mod g =
     (if armour p \<le> 0 then
        (let p1 = p\<lparr>armour := 0\<rparr> in
         if \<not> pilot_isFlag p1 PILOT_DEAD then
           (let (p2, g1) = pilot_dead p1 g;
                g2 = (case pilot_get_faction env shooter of
                        None \<Rightarrow> g1
                      | Some f \<Rightarrow>
                          if f = FACTION_PLAYER env then
                            (let md = c_trunc (2 * (ship_mass (ship p2) powr 0.4 - 1))
                             in emit (FactionModPlayer (faction p2) (- md)) g1)
                          else g1)
            in (p2, g2, 0))
         else (p1, g, 0))
      else if shield p \<le> 0 then
        (let dm = damage_armour / armour_max p
         in (p, (if pid p = PLAYER_ID then emit (SpfxShake (SHAKE_MAX env * dm)) g else g), dm))
      else (p, g, dam_mod))"

definition hit_knockback :: "Pilot \<Rightarrow> Solid option \<Rightarrow> real \<Rightarrow> real \<Rightarrow> Pilot" where
  "hit_knockback p w knockback dam_mod =
     (case w of
        None \<Rightarrow> p
      | Some ws \<Rightarrow>
          p\<lparr>solid := (solid p)\<lparr>vel :=
               vect_cadd (vel (solid p))
                 (knockback * (vx (vel ws) * (dam_mod / 9 + mass ws / mass (solid p) / 6)))
                 (knockback * (vy (vel ws) * (dam_mod / 9 + mass ws / mass (solid p) / 6)))\<rparr>\<rparr>)"

text \<open>
  \<^verbatim>\<open>pilot_hit(p, w, shooter, dtype, damage)\<close>: the returned damage, the pilot and the
  world after the hit.
\<close>

definition pilot_hit ::
  "HitEnv \<Rightarrow> Pilot \<Rightarrow> Solid option \<Rightarrow> 32 word \<Rightarrow> DamageType \<Rightarrow> real \<Rightarrow> World
     \<Rightarrow> real \<times> Pilot \<times> World" where
  "pilot_hit env p w shooter dtype damage g =
     (let (damage_shield, damage_armour, knockback) = calcDamage env dtype damage;
          pflags = (if p_is_player env then flags p else player_flags env);
          g0 = (if w \<noteq> None \<and> pid p = PLAYER_ID \<and> pflags AND PILOT_HYP_BEGIN = 0
                   \<and> pflags AND PILOT_HYPERSPACE = 0
                then emit (PlayerAbortAutonav ''Sustaining Damage'') g else g);
          (dmg, dam_mod, p1) = hit_absorb p dtype damage_shield damage_armour;
          (p2, g1) = hit_disable env p1 shooter g0;
          (p3, g2, dam_mod') = hit_dead env p2 shooter damage_armour dam_mod g1;
          p4 = hit_knockback p3 w knockback dam_mod'
      in (dmg, p4, g2))"

section \<open>Behaviour task stack (ai.c)\<close>

datatype ai_error = NullDeref

text \<open>
  The state the task bindings of ai.c work on: the global \<^verbatim>\<open>cur_pilot\<close>, the tasks
  handed to \<^verbatim>\<open>free\<close> so far (in the order of the calls), and the messages of the
  debug log.
\<close>

record ai_state =
  cur_pilot :: Pilot
  freed :: "Task list"
  debug :: "string list"

datatype lua_value = LuaNumber real | LuaOther

text \<open>
  Modelled from the spec: nlua.h is not under src/. \<^verbatim>\<open>NLUA_DEBUG\<close> reports a message
  ("no error in this core is fatal to the process") and execution goes on with the
  statement after it.
\<close>

definition NLUA_DEBUG :: "string \<Rightarrow> ai_state \<Rightarrow> ai_state" where
  "NLUA_DEBUG msg s = s\<lparr>debug := debug s @ [msg]\<rparr>"

text \<open>
  \<^verbatim>\<open>ai_freetask(t)\<close> frees the chain that starts at \<^verbatim>\<open>t\<close>, the tail first. It reads
  \<^verbatim>\<open>t->next\<close> at once, so a \<^verbatim>\<open>NULL\<close> argument is a null dereference.
\<close>

fun ai_freetask :: "Task list \<Rightarrow> Task list \<Rightarrow> ai_error + Task list" where
  "ai_freetask [] fr = Inl NullDeref"
| "ai_freetask (t # nxt) fr =
     (if nxt \<noteq> [] then
        (case ai_freetask nxt fr of
           Inl e \<Rightarrow> Inl e
         | Inr fr' \<Rightarrow> Inr (fr' @ [t]))
      else Inr (fr @ [t]))"

text \<open>
  \<^verbatim>\<open>aiL_pushtask\<close>, from the parsed arguments on: \<open>tpos\<close> and \<open>func\<close> are the results of
  \<^verbatim>\<open>luaL_checkint(L,1)\<close> and \<^verbatim>\<open>luaL_checkstring(L,2)\<close>, and \<open>arg3\<close> is the third Lua
  argument, \<open>None\<close> when \<^verbatim>\<open>lua_gettop(L) > 2\<close> is false. \<^verbatim>\<open>malloc\<close> and \<^verbatim>\<open>strdup\<close> are
  taken to succeed (the source does not check them). \<^verbatim>\<open>NLUA_INVALID_PARAMETER\<close>
  returns 0 before the new task is linked. The result is the returned number of Lua
  values and the new state, or the fault the C code runs into.
\<close>

definition aiL_pushtask ::
  "int \<Rightarrow> string \<Rightarrow> lua_value option \<Rightarrow> ai_state \<Rightarrow> ai_error + (int \<times> ai_state)" where
  "aiL_pushtask tpos func arg3 s =
     (let t = \<lparr>task_name = func, dat = TYPE_NULL\<rparr> in
      case (case arg3 of
              None \<Rightarrow> Some t
            | Some (LuaNumber n) \<Rightarrow> Some (t\<lparr>dat := TYPE_INT (word_of_int (c_trunc n))\<rparr>)
            | Some LuaOther \<Rightarrow> None) of
        None \<Rightarrow> Inr (0, NLUA_DEBUG ''[aiL_pushtask] Invalid parameter'' s)
      | Some t' \<Rightarrow>
          (if tpos = 1 then
             (case task (cur_pilot s) of
                [] \<Rightarrow> Inl NullDeref
              | hd_t # rest \<Rightarrow>
                  Inr (0, s\<lparr>cur_pilot := (cur_pilot s)\<lparr>task := (hd_t # rest) @ [t']\<rparr>\<rparr>))
           else Inr (0, s\<lparr>cur_pilot := (cur_pilot s)\<lparr>task := t' # task (cur_pilot s)\<rparr>\<rparr>)))"

definition aiL_poptask :: "ai_state \<Rightarrow> ai_error + (int \<times> ai_state)" where
  "aiL_poptask s =
     (case task (cur_pilot s) of
        [] \<Rightarrow>
          Inr (0, NLUA_DEBUG ''Trying to pop task when there are no tasks on the stack.'' s)
      | t # nxt \<Rightarrow>
          (case ai_freetask [t] (freed s) of
             Inl e \<Rightarrow> Inl e
           | Inr fr \<Rightarrow> Inr (0, s\<lparr>cur_pilot := (cur_pilot s)\<lparr>task := nxt\<rparr>, freed := fr\<rparr>)))"

text \<open>Whether the optional third argument of \<^verbatim>\<open>aiL_pushtask\<close> is accepted.\<close>

definition pushtask_arg_ok :: "lua_value option \<Rightarrow> bool" where
  "pushtask_arg_ok arg3 = (case arg3 of Some LuaOther \<Rightarrow> False | _ \<Rightarrow> True)"

definition pushtask_new :: "string \<Rightarrow> lua_value option \<Rightarrow> Task" where
  "pushtask_new func arg3 =
     (case arg3 of
        Some (LuaNumber n) \<Rightarrow> \<lparr>task_name = func, dat = TYPE_INT (word_of_int (c_trunc n))\<rparr>
      | _ \<Rightarrow> \<lparr>task_name = func, dat = TYPE_NULL\<rparr>)"

text \<open>
  The damage model yields non-negative shield and armour damage for this hit (the
  outputs of \<^verbatim>\<open>outfit_calcDamage\<close> on a non-negative damage input).
\<close>

definition nonneg_damage :: "HitEnv \<Rightarrow> DamageType \<Rightarrow> real \<Rightarrow> bool" where
  "nonneg_damage env dtype damage =
     (0 \<le> fst (calcDamage env dtype damage) \<and> 0 \<le> fst (snd (calcDamage env dtype damage)))"

text \<open>The hook ids run for disable hooks, read off an event trace.\<close>

definition disable_hook_runs :: "event list \<Rightarrow> int list" where
  "disable_hook_runs es =
     concat (map (\<lambda>e. case e of
                          HookRun t i \<Rightarrow> if t = PILOT_HOOK_DISABLE then [i] else []
                        | _ \<Rightarrow> []) es)"

text \<open>The armour of a pilot once a hit has been absorbed (before the armour is clamped).\<close>

definition armour_absorbed :: "HitEnv \<Rightarrow> Pilot \<Rightarrow> DamageType \<Rightarrow> real \<Rightarrow> real" where
  "armour_absorbed env p dtype damage =
     armour (snd (snd (hit_absorb p dtype (fst (calcDamage env dtype damage))
                         (fst (snd (calcDamage env dtype damage))))))"

section \<open>Weapon firing scheduler (pilot.c)\<close>

definition pilot_updateMass :: "Pilot \<Rightarrow> Pilot" where
  "pilot_updateMass p = p\<lparr>turn := turn_base p * ship_mass (ship p) / mass (solid p)\<rparr>"

text \<open>
  The counting loop of \<^verbatim>\<open>pilot_shootWeapon\<close> over the high slots from index \<open>i\<close> on.
  \<open>wdelay\<close> is \<^verbatim>\<open>outfit_delay(w->outfit)\<close> and \<open>noammo\<close> the test "launcher only counts
  with ammo", which the source makes on \<^verbatim>\<open>w\<close> itself. The state is \<^verbatim>\<open>(q, minp, mint)\<close>.
\<close>

fun shoot_count ::
  "real \<Rightarrow> bool \<Rightarrow> PilotOutfitSlot list \<Rightarrow> int \<Rightarrow> real \<times> int \<times> real \<Rightarrow> real \<times> int \<times> real" where
  "shoot_count wdelay noammo [] i acc = acc"
| "shoot_count wdelay noammo (slot # rest) i (q, minp, mint) =
     (case outfit slot of
        None \<Rightarrow> shoot_count wdelay noammo rest (i + 1) (q, minp, mint)
      | Some so \<Rightarrow>
          if outfit_delay so \<noteq> wdelay then
            shoot_count wdelay noammo rest (i + 1) (q, minp, mint)
          else if noammo then
            shoot_count wdelay noammo rest (i + 1) (q, minp, mint)
          else if minp < 0 \<or> otimer slot > mint then
            shoot_count wdelay noammo rest (i + 1) (q + 1, i, otimer slot)
          else
            shoot_count wdelay noammo rest (i + 1) (q + 1, minp, mint))"

text \<open>
  The gate of \<^verbatim>\<open>pilot_shootWeapon\<close> ("check to see if weapon is ready" up to "only
  fire if the last weapon to fire fired more than (q-1)/q ago"): whether the call goes
  on to fire slot \<open>ws\<close> with outfit \<open>wo\<close>. \<^verbatim>\<open>mint\<close> is not initialised in the source
  and is only read once \<^verbatim>\<open>minp\<close> is set; it starts as 0 here.
\<close>

definition shoot_ready :: "Pilot \<Rightarrow> PilotOutfitSlot \<Rightarrow> Outfit \<Rightarrow> bool" where
  "shoot_ready p ws wo =
     (if otimer ws > 0 then False
      else if \<not> outfit_isBeam wo then
        (let is_launcher = outfit_isLauncher wo;
             noammo = (is_launcher \<and> (ammo_outfit ws = None \<or> ammo_quantity ws \<le> 0));
             (q, minp, mint) = shoot_count (outfit_delay wo) noammo (outfit_high p) 0 (0, -1, 0)
         in if q = 0 then False
            else if mint > outfit_delay wo * ((q - 1) / q) then False
            else True)
      else True)"

definition set_high :: "Pilot \<Rightarrow> nat \<Rightarrow> PilotOutfitSlot \<Rightarrow> Pilot" where
  "set_high p w ws = p\<lparr>outfit_high := (outfit_high p)[w := ws]\<rparr>"

text \<open>
  The firing part of \<^verbatim>\<open>pilot_shootWeapon\<close>, by kind of outfit, and the timer reset
  that ends it. The mount position and the velocity only feed the projectile spawner
  and are left out of the events. \<open>bid\<close> is the handle \<^verbatim>\<open>beam_start\<close> returns. \<open>None\<close>
  is the dereference of a \<^verbatim>\<open>NULL\<close> ammunition type of a launcher.
\<close>

definition shoot_fire ::
  "Pilot \<Rightarrow> nat \<Rightarrow> PilotOutfitSlot \<Rightarrow> Outfit \<Rightarrow> int \<Rightarrow> World \<Rightarrow> (int \<times> Pilot \<times> World) option" where
  "shoot_fire p w ws wo bid g =
     (let reset = (\<lambda>q s. set_high q w (s\<lparr>otimer := otimer s + outfit_delay wo\<rparr>)) in
      if outfit_isBolt wo then
        (if outfit_energy wo > energy p then Some (0, p, g)
         else Some (0, reset (p\<lparr>energy := energy p - outfit_energy wo\<rparr>) ws,
                    emit (WeaponAdd (outfit_name wo)) g))
      else if outfit_isBeam wo then
        (if outfit_energy wo > energy p then Some (0, p, g)
         else Some (0, reset p (ws\<lparr>state := PILOT_OUTFIT_ON, beamid := bid\<rparr>),
                    emit (BeamStart (outfit_name wo)) g))
      else if outfit_isLauncher wo then
        (case ammo_ai wo of
           None \<Rightarrow> None
         | Some ai \<Rightarrow>
             if ai > 0 \<and> pid p = target p then Some (0, p, g)
             else
               (case ammo_outfit ws of
                  None \<Rightarrow> Some (0, p, g)
                | Some am \<Rightarrow>
                    if ammo_quantity ws \<le> 0 then Some (0, p, g)
                    else if outfit_energy am > energy p then Some (0, p, g)
                    else
                      (let p1 = p\<lparr>energy := energy p - outfit_energy am\<rparr>;
                           g1 = emit (WeaponAdd (outfit_name am)) g;
                           ws1 = ws\<lparr>ammo_quantity := ammo_quantity ws - 1\<rparr>;
                           p2 = p1\<lparr>mass_outfit := mass_outfit p1 - outfit_mass am\<rparr>;
                           p3 = pilot_updateMass p2
                       in Some (0, reset p3 ws1, g1))))
      else if outfit_isFighterBay wo then
        (case ammo_outfit ws of
           None \<Rightarrow> Some (0, p, g)
         | Some am \<Rightarrow>
             if ammo_quantity ws \<le> 0 then Some (0, p, g)
             else
               (let g1 = emit EscortCreate g;
                    ws1 = ws\<lparr>ammo_quantity := ammo_quantity ws - 1\<rparr>;
                    p1 = p\<lparr>mass_outfit := mass_outfit p - outfit_mass am\<rparr>;
                    ws2 = ws1\<lparr>ammo_deployed := ammo_deployed ws1 + 1\<rparr>;
                    p2 = pilot_updateMass p1
                in Some (0, reset p2 ws2, g1)))
      else Some (0, reset p ws, emit (Warn ''Shooting unknown weapon type'') g))"

text \<open>
  \<^verbatim>\<open>pilot_shootWeapon(p, w)\<close> for the high slot with index \<open>w\<close>. \<open>None\<close> is a fault of
  the C code: a slot index out of range, or a slot without outfit (the source reads
  \<^verbatim>\<open>w->outfit\<close> through the accessors without a check).
\<close>

definition pilot_shootWeapon ::
  "Pilot \<Rightarrow> nat \<Rightarrow> int \<Rightarrow> World \<Rightarrow> (int \<times> Pilot \<times> World) option" where
  "pilot_shootWeapon p w bid g =
     (if w < length (outfit_high p) then
        (let ws = outfit_high p ! w in
         if otimer ws > 0 then Some (0, p, g)
         else
           (case outfit ws of
              None \<Rightarrow> None
            | Some wo \<Rightarrow>
                if shoot_ready p ws wo then shoot_fire p w ws wo bid g else Some (0, p, g)))
      else None)"


text \<open>
  The first block of \<^verbatim>\<open>pilot_update\<close>: every timer of the pilot goes down by \<open>dt\<close>,
  the AI timers and the slot timers only while they are positive.
\<close>

definition update_timers :: "Pilot \<Rightarrow> real \<Rightarrow> Pilot" where
  "update_timers p dt =
     (let tick = (\<lambda>s. if otimer s > 0 then s\<lparr>otimer := otimer s - dt\<rparr> else s) in
      p\<lparr>ptimer := ptimer p - dt,
        tcontrol := tcontrol p - dt,
        timer := map (\<lambda>t. if t > 0 then t - dt else t) (timer p),
        outfit_low := map tick (outfit_low p),
        outfit_medium := map tick (outfit_medium p),
        outfit_high := map tick (outfit_high p)\<rparr>)"




section \<open>Stat calculator and cargo ledger (pilot.c)\<close>

definition pilot_cargoUsed :: "Pilot \<Rightarrow> int" where
  "pilot_cargoUsed p = sum_list (map cargo_quantity (commodities p))"

definition pilot_cargoFree :: "Pilot \<Rightarrow> int" where
  "pilot_cargoFree p = cargo_free p"

definition pilot_calcCargo :: "Pilot \<Rightarrow> Pilot" where
  "pilot_calcCargo p =
     (let p1 = p\<lparr>mass_cargo := real_of_int (pilot_cargoUsed p)\<rparr>;
          p2 = p1\<lparr>cargo_free := c_trunc (real_of_int (ship_cap_cargo (ship p1)) - mass_cargo p1)\<rparr>;
          p3 = p2\<lparr>solid := (solid p2)\<lparr>mass :=
                 ship_mass (ship p2) + mass_cargo p2 + mass_outfit p2\<rparr>\<rparr>
      in pilot_updateMass p3)"

text \<open>
  One round of the outfit loop of \<^verbatim>\<open>pilot_calcStats\<close>, for the slot \<^verbatim>\<open>outfits[i]\<close>. The
  state is the pilot with \<^verbatim>\<open>nweaps\<close>, \<^verbatim>\<open>wrange\<close> and \<^verbatim>\<open>wspeed\<close>.
\<close>

definition calcStats_slot ::
  "nat \<times> PilotOutfitSlot \<Rightarrow> Pilot \<times> int \<times> real \<times> real \<Rightarrow> Pilot \<times> int \<times> real \<times> real" where
  "calcStats_slot islot acc =
     (case outfit (snd islot) of
        None \<Rightarrow> acc
      | Some ou \<Rightarrow>
          (let slot = snd islot;
               (p, nweaps, wrange, wspeed) = acc;
               q = real_of_int (quantity slot);
               m = u_mod ou;
               p1 = p\<lparr>cpu := cpu p - outfit_cpu ou * q\<rparr>;
               p2 = (if outfit_cpu ou < 0 then p1\<lparr>cpu_max := cpu_max p1 - outfit_cpu ou * q\<rparr>
                     else p1);
               p3 = p2\<lparr>mass_outfit := mass_outfit p2 + outfit_mass ou\<rparr>;
               p4 = (if outfit_isMod ou then
                       p3\<lparr>thrust := thrust p3 + mod_thrust m * ship_mass (ship p3) * q
                                       + mod_thrust_rel m * ship_thrust (ship p3) * q,
                          turn_base := turn_base p3 + mod_turn m * q
                                       + mod_turn_rel m * ship_turn (ship p3) * q,
                          speed := speed p3 + mod_speed m * q
                                       + mod_speed_rel m * ship_speed (ship p3) * q,
                          armour_max := armour_max p3 + mod_armour m * q,
                          armour_regen := armour_regen p3 + mod_armour_regen m * q,
                          shield_max := shield_max p3 + mod_shield m * q,
                          shield_regen := shield_regen p3 + mod_shield_regen m * q,
                          energy_max := energy_max p3 + mod_energy m * q,
                          energy_regen := energy_regen p3 + mod_energy_regen m * q,
                          fuel_max := fuel_max p3 + mod_fuel m * q,
                          cargo_free := c_trunc (real_of_int (cargo_free p3) + mod_cargo m * q),
                          mass_outfit := mass_outfit p3 + mod_mass_rel m * ship_mass (ship p3) * q\<rparr>
                     else if outfit_isAfterburner ou then p3\<lparr>afterburner := Some (fst islot)\<rparr>
                     else if outfit_isJammer ou then
                       (let p3' = (if jam_chance p3 < jam_chance_o ou
                                   then p3\<lparr>jam_range := jam_range_o ou,
                                           jam_chance := jam_chance_o ou\<rparr>
                                   else p3)
                        in p3'\<lparr>energy_regen := energy_regen p3' - jam_energy ou\<rparr>)
                     else p3);
               prim = ((outfit_isWeapon ou \<or> outfit_isTurret ou)
                        \<and> \<not> outfit_isProp ou OUTFIT_PROP_WEAP_SECONDARY);
               p5 = (if ammo_ai ou \<noteq> None then
                       (case ammo_outfit slot of
                          None \<Rightarrow> p4
                        | Some am \<Rightarrow>
                            p4\<lparr>mass_outfit := mass_outfit p4
                                  + real_of_int (ammo_quantity slot) * outfit_mass am\<rparr>)
                     else p4)
           in (p5,
               if prim then nweaps + 1 else nweaps,
               if prim then wrange + outfit_range ou else wrange,
               if prim then wspeed + outfit_speed ou else wspeed)))"

text \<open>
  \<^verbatim>\<open>pilot_calcStats\<close>. The health ratios are quotients of doubles in the source; in
  the model a quotient by 0 is 0.
\<close>

definition pilot_calcStats :: "Pilot \<Rightarrow> Pilot" where
  "pilot_calcStats p =
     (let sh = ship p;
          p1 = p\<lparr>solid := (solid p)\<lparr>mass := ship_mass sh\<rparr>,
                 thrust := ship_thrust sh, turn_base := ship_turn sh, speed := ship_speed sh,
                 cpu_max := ship_cpu sh, cpu := ship_cpu sh\<rparr>;
          ac = armour p1 / armour_max p1;
          sc = shield p1 / shield_max p1;
          ec = energy p1 / energy_max p1;
          fc = fuel p1 / fuel_max p1;
          p2 = p1\<lparr>armour_max := ship_armour sh, shield_max := ship_shield sh,
                  fuel_max := ship_fuel sh, armour_regen := ship_armour_regen sh,
                  shield_regen := ship_shield_regen sh,
                  energy_max := ship_energy sh, energy_regen := ship_energy_regen sh,
                  jam_range := 0, jam_chance := 0\<rparr>;
          p3 = pilot_calcCargo p2;
          p4 = p3\<lparr>mass_outfit := 0\<rparr>;
          (p5, nweaps, wrange, wspeed) =
             fold calcStats_slot (enumerate 0 (outfits p4)) (p4, 0, 0, 0);
          p6 = p5\<lparr>energy_tau := energy_max p5 / energy_regen p5\<rparr>;
          p7 = (if nweaps > 0
                then p6\<lparr>weap_range := wrange / real_of_int nweaps,
                        weap_speed := wspeed / real_of_int nweaps\<rparr>
                else p6\<lparr>weap_range := 0, weap_speed := 0\<rparr>);
          p8 = p7\<lparr>armour := ac * armour_max p7, shield := sc * shield_max p7,
                  energy := ec * energy_max p7, fuel := fc * fuel_max p7\<rparr>;
          p9 = p8\<lparr>solid := (solid p8)\<lparr>mass :=
                  ship_mass (ship p8) + mass_cargo p8 + mass_outfit p8\<rparr>\<rparr>
      in pilot_updateMass p9)"

text \<open>
  \<^verbatim>\<open>pilot_addOutfitRaw\<close> and \<^verbatim>\<open>pilot_rmOutfitRaw\<close> on the slot \<^verbatim>\<open>outfits[i]\<close>, and
  the equip and unequip operations once the checks of \<^verbatim>\<open>pilot_addOutfitTest\<close> and
  \<^verbatim>\<open>pilot_canEquip\<close> have let them through: the raw change, then \<^verbatim>\<open>pilot_calcStats\<close>.
\<close>

definition set_slot :: "Pilot \<Rightarrow> nat \<Rightarrow> PilotOutfitSlot \<Rightarrow> Pilot" where
  "set_slot p i s =
     (let nl = length (outfit_low p); nm = length (outfit_medium p) in
      if i < nl then p\<lparr>outfit_low := (outfit_low p)[i := s]\<rparr>
      else if i < nl + nm then p\<lparr>outfit_medium := (outfit_medium p)[i - nl := s]\<rparr>
      else p\<lparr>outfit_high := (outfit_high p)[i - nl - nm := s]\<rparr>)"

definition pilot_addOutfitRaw :: "Pilot \<Rightarrow> Outfit \<Rightarrow> nat \<Rightarrow> Pilot" where
  "pilot_addOutfitRaw p ou i =
     (let s = outfits p ! i;
          s1 = s\<lparr>outfit := Some ou, quantity := 1, otimer := 0\<rparr>;
          s2 = (if outfit_isFighterBay ou
                then s1\<lparr>ammo_outfit := None, ammo_quantity := 0, ammo_deployed := 0\<rparr> else s1);
          p1 = (if outfit_isTurret ou then pilot_setFlag p PILOT_HASTURRET else p);
          s3 = (if outfit_isBeam ou then s2\<lparr>beamid := -1\<rparr> else s2);
          p2 = (if outfit_isBeam ou then pilot_setFlag p1 PILOT_HASBEAMS else p1);
          s4 = (if outfit_isLauncher ou
                then s3\<lparr>ammo_outfit := None, ammo_quantity := 0, ammo_deployed := 0\<rparr> else s3)
      in set_slot p2 i s4)"

definition pilot_rmOutfitRaw :: "Pilot \<Rightarrow> nat \<Rightarrow> Pilot" where
  "pilot_rmOutfitRaw p i =
     (let s = outfits p ! i;
          p1 = set_slot p i (s\<lparr>outfit := None\<rparr>);
          p2 = (if secondary p1 = Some i then p1\<lparr>secondary := None\<rparr> else p1)
      in if afterburner p2 = Some i then p2\<lparr>afterburner := None\<rparr> else p2)"

definition equip_outfit :: "Pilot \<Rightarrow> Outfit \<Rightarrow> nat \<Rightarrow> Pilot" where
  "equip_outfit p ou i = pilot_calcStats (pilot_addOutfitRaw p ou i)"

definition unequip_outfit :: "Pilot \<Rightarrow> nat \<Rightarrow> Pilot" where
  "unequip_outfit p i = pilot_calcStats (pilot_rmOutfitRaw p i)"

text \<open>
  The index of the first commodity entry that satisfies \<open>P\<close>: the search loops of the
  cargo functions.
\<close>

fun find_cargo :: "(PilotCommodity \<Rightarrow> bool) \<Rightarrow> PilotCommodity list \<Rightarrow> nat option" where
  "find_cargo P [] = None"
| "find_cargo P (c # cs) =
     (if P c then Some 0 else map_option Suc (find_cargo P cs))"

definition cargo_tweak :: "Pilot \<Rightarrow> int \<Rightarrow> Pilot" where
  "cargo_tweak p q =
     pilot_updateMass
       (p\<lparr>cargo_free := cargo_free p - q,
          mass_cargo := mass_cargo p + real_of_int q,
          solid := (solid p)\<lparr>mass := mass (solid p) + real_of_int q\<rparr>\<rparr>)"

definition pilot_addCargoRaw :: "Pilot \<Rightarrow> string \<Rightarrow> int \<Rightarrow> 32 word \<Rightarrow> int \<times> Pilot" where
  "pilot_addCargoRaw p cargo qty cid =
     (let f = pilot_cargoFree p;
          q = (if f < qty then f else qty);
          found = (if cid = 0
                   then find_cargo (\<lambda>c. cargo_id c = 0 \<and> commodity c = cargo) (commodities p)
                   else None)
      in case found of
           Some i \<Rightarrow>
             (let c = commodities p ! i;
                  p1 = p\<lparr>commodities :=
                          (commodities p)[i := c\<lparr>cargo_quantity := cargo_quantity c + q\<rparr>]\<rparr>
              in (q, cargo_tweak p1 q))
         | None \<Rightarrow>
             (let p1 = p\<lparr>commodities := commodities p
                          @ [\<lparr>commodity = cargo, cargo_quantity = q, cargo_id = cid\<rparr>]\<rparr>
              in (q, cargo_tweak p1 q)))"

definition pilot_addCargo :: "Pilot \<Rightarrow> string \<Rightarrow> int \<Rightarrow> int \<times> Pilot" where
  "pilot_addCargo p cargo qty = pilot_addCargoRaw p cargo qty 0"

definition pilot_rmCargoRaw :: "Pilot \<Rightarrow> string \<Rightarrow> int \<Rightarrow> bool \<Rightarrow> int \<times> Pilot" where
  "pilot_rmCargoRaw p cargo qty cleanup =
     (case find_cargo (\<lambda>c. commodity c = cargo \<and> (cleanup \<or> cargo_id c = 0)) (commodities p) of
        None \<Rightarrow> (0, p)
      | Some i \<Rightarrow>
          (let c = commodities p ! i in
           if qty \<ge> cargo_quantity c then
             (let q = cargo_quantity c;
                  p1 = p\<lparr>commodities := take i (commodities p) @ drop (Suc i) (commodities p)\<rparr>
              in (q, cargo_tweak p1 (- q)))
           else
             (let p1 = p\<lparr>commodities :=
                          (commodities p)[i := c\<lparr>cargo_quantity := cargo_quantity c - qty\<rparr>]\<rparr>
              in (qty, cargo_tweak p1 (- qty)))))"

definition pilot_rmCargo :: "Pilot \<Rightarrow> string \<Rightarrow> int \<Rightarrow> int \<times> Pilot" where
  "pilot_rmCargo p cargo qty = pilot_rmCargoRaw p cargo qty False"

text \<open>The mass invariant: the physics mass is hull mass plus cargo mass plus outfit mass.\<close>

definition mass_ok :: "Pilot \<Rightarrow> bool" where
  "mass_ok p = (mass (solid p) = ship_mass (ship p) + mass_cargo p + mass_outfit p)"

section \<open>Update tick (pilot.c)\<close>

text \<open>
  What \<^verbatim>\<open>pilot_update\<close> takes from outside pilot.c: the update function \<^verbatim>\<open>solid->update\<close> of the
  solid and \<^verbatim>\<open>limit_speed\<close> (physics.c), the pilot that \<^verbatim>\<open>pilot_get(pilot->target)\<close>
  finds (another pilot, \<open>None\<close> for \<^verbatim>\<open>NULL\<close>), \<^verbatim>\<open>pilot_boardComplete\<close> (board.c) and
  \<^verbatim>\<open>SHAKE_DECAY\<close> (spfx.h).
\<close>

record UpdateEnv =
  solid_step :: "Solid \<Rightarrow> real \<Rightarrow> Solid"
  limit_speed :: "Vector2d \<Rightarrow> real \<Rightarrow> real \<Rightarrow> Vector2d"
  pilot_get_target :: "Pilot option"
  pilot_boardComplete :: "Pilot \<Rightarrow> Pilot"
  SHAKE_DECAY :: real

definition pilot_setThrust :: "Pilot \<Rightarrow> real \<Rightarrow> Pilot" where
  "pilot_setThrust p th = p\<lparr>solid := (solid p)\<lparr>force_x := thrust p * th\<rparr>\<rparr>"

definition pilot_setTurn :: "Pilot \<Rightarrow> real \<Rightarrow> Pilot" where
  "pilot_setTurn p tn = p\<lparr>solid := (solid p)\<lparr>dir_vel := turn p * tn\<rparr>\<rparr>"

text \<open>The staged death sequence of a pilot flagged dead; \<open>True\<close> when the update returns.\<close>

definition update_death :: "Pilot \<Rightarrow> World \<Rightarrow> Pilot \<times> World \<times> bool" where
  "update_death p g =
     (if pilot_isFlag p PILOT_DEAD then
        (if ptimer p < 0 then
           (pilot_setFlag p PILOT_DELETE,
            (if pid p = PLAYER_ID then emit PlayerDestroyed g else g), True)
         else if \<not> pilot_isFlag p PILOT_DEATH_SOUND \<and> ptimer p < 0.050 then
           (pilot_setFlag p PILOT_DEATH_SOUND, emit SoundPlayPos g, False)
         else if \<not> pilot_isFlag p PILOT_EXPLODED \<and> ptimer p < 0.200 then
           (pilot_setFlag p PILOT_EXPLODED,
            (emit DebrisAdd (emit ExplExplode g))\<lparr>events :=
               events (emit DebrisAdd (emit ExplExplode g))
               @ map (\<lambda>c. CommodityJettison (commodity c) (cargo_quantity c)) (commodities p)\<rparr>,
            False)
         else if timer p ! 1 \<le> 0 then
           (p\<lparr>timer := (timer p)[1 := 0.08 * (ptimer p - timer p ! 1) / ptimer p]\<rparr>,
            emit SpfxAdd g, False)
         else (p, g, False))
      else if armour p \<le> 0 then
        (fst (pilot_dead p g), snd (pilot_dead p g), False)
      else (p, g, False))"

definition glow_decay :: "Pilot \<Rightarrow> real \<Rightarrow> Pilot" where
  "glow_decay p dt =
     (if engine_glow p > 0 then
        (let p1 = p\<lparr>engine_glow := engine_glow p - speed p / thrust p * dt * mass (solid p)\<rparr>
         in if engine_glow p1 < 0 then p1\<lparr>engine_glow := 0\<rparr> else p1)
      else p)"

text \<open>
  The block of a disabled pilot. Modelled from the spec: \<^verbatim>\<open>vect_pset\<close>, \<^verbatim>\<open>VMOD\<close> and
  \<^verbatim>\<open>VANGLE\<close> of physics.h are not under src/; setting the velocity to its own angle
  with the modulus scaled is "brake velocity toward zero" by that factor.
\<close>

definition update_disabled :: "UpdateEnv \<Rightarrow> Pilot \<Rightarrow> real \<Rightarrow> Pilot" where
  "update_disabled env p dt =
     (let v = vel (solid p);
          p1 = p\<lparr>solid := (solid p)\<lparr>vel := v\<lparr>vx := vx v * (1 - dt * 0.10),
                                                 vy := vy v * (1 - dt * 0.10)\<rparr>\<rparr>\<rparr>;
          p2 = pilot_setTurn (pilot_setThrust p1 0) 0;
          p3 = p2\<lparr>solid := solid_step env (solid p2) dt\<rparr>
      in glow_decay p3 dt)"

text \<open>
  "Pilot is still alive": armour and shield regeneration, the afterburner break, the
  energy charge ("RC circuit energy loading"), the decay of the player damage and the
  energy limit.
\<close>

definition update_regen :: "Pilot \<Rightarrow> real \<Rightarrow> Pilot" where
  "update_regen p dt =
     (let p1 = p\<lparr>armour := armour p + armour_regen p * dt\<rparr>;
          p2 = (if armour p1 > armour_max p1 then p1\<lparr>armour := armour_max p1\<rparr> else p1);
          p3 = p2\<lparr>shield := shield p2 + shield_regen p2 * dt\<rparr>;
          p4 = (if shield p3 > shield_max p3 then p3\<lparr>shield := shield_max p3\<rparr> else p3);
          p5 = (if energy p4 < 1 \<and> pilot_isFlag p4 PILOT_AFTERBURNER
                then pilot_rmFlag p4 PILOT_AFTERBURNER else p4);
          p6 = p5\<lparr>energy := energy p5
                  + (energy_max p5 - energy p5) * (1 - exp (- dt / energy_tau p5))\<rparr>;
          p7 = (if player_damage p6 > 0
                then p6\<lparr>player_damage := player_damage p6 - dt * PILOT_HOSTILE_DECAY\<rparr>
                else p6\<lparr>player_damage := 0\<rparr>)
      in if energy p7 > energy_max p7 then p7\<lparr>energy := energy_max p7\<rparr> else p7)"

text \<open>
  \<^verbatim>\<open>pilot_refuel\<close>: the pilot and its target after the transfer.
  \<^verbatim>\<open>PILOT_REFUEL_RATE\<close> expands to \<^verbatim>\<open>100./3.\<close>.
\<close>

definition pilot_refuel :: "Pilot \<Rightarrow> Pilot option \<Rightarrow> real \<Rightarrow> Pilot \<times> Pilot option" where
  "pilot_refuel p tgt dt =
     (case tgt of
        None \<Rightarrow> (pilot_rmFlag (pilot_rmFlag p PILOT_REFUELBOARDING) PILOT_REFUELING, None)
      | Some t \<Rightarrow>
          (let p1 = p\<lparr>solid := (solid p)\<lparr>vel := vel (solid t)\<rparr>\<rparr>;
               p2 = p1\<lparr>fuel := fuel p1 - 100 / 3 * dt\<rparr>;
               t1 = t\<lparr>fuel := fuel t + 100 / 3 * dt\<rparr>;
               full = (fuel t1 > fuel_max t1);
               p3 = (if full then p2\<lparr>ptimer := -1\<rparr> else p2);
               t2 = (if full then t1\<lparr>fuel := fuel_max t1\<rparr> else t1);
               p4 = (if ptimer p3 < 0
                     then pilot_rmFlag (pilot_rmFlag p3 PILOT_REFUELBOARDING) PILOT_REFUELING
                     else p3)
           in (p4, Some t2)))"

definition update_board :: "UpdateEnv \<Rightarrow> Pilot \<Rightarrow> Pilot option \<Rightarrow> Pilot" where
  "update_board env p tgt =
     (if pilot_isFlag p PILOT_BOARDING then
        (case tgt of
           None \<Rightarrow> pilot_rmFlag p PILOT_BOARDING
         | Some t \<Rightarrow>
             (let p1 = p\<lparr>solid := (solid p)\<lparr>vel := vel (solid t)\<rparr>\<rparr>
              in if ptimer p1 < 0 then pilot_boardComplete env p1 else p1))
      else p)"

definition update_glow :: "Pilot \<Rightarrow> real \<Rightarrow> Pilot" where
  "update_glow p dt =
     (if force_x (solid p) > 0 then
        (let p1 = p\<lparr>engine_glow := engine_glow p + speed p / thrust p * dt * mass (solid p)\<rparr>
         in if engine_glow p1 > 1 then p1\<lparr>engine_glow := 1\<rparr> else p1)
      else glow_decay p dt)"

text \<open>
  The update of the solid and the speed limit, with the afterburner raising the limit
  and draining energy. \<open>None\<close> is the dereference of a \<^verbatim>\<open>NULL\<close> afterburner.
\<close>

definition update_move :: "UpdateEnv \<Rightarrow> Pilot \<Rightarrow> real \<Rightarrow> World \<Rightarrow> (Pilot \<times> World) option" where
  "update_move env p dt g =
     (let p1 = p\<lparr>solid := solid_step env (solid p) dt\<rparr> in
      if \<not> pilot_isFlag p1 PILOT_HYPERSPACE then
        (if pilot_isFlag p1 PILOT_AFTERBURNER then
           (case (case afterburner p1 of
                    None \<Rightarrow> None
                  | Some i \<Rightarrow> if i < length (outfits p1) then outfit (outfits p1 ! i) else None) of
              None \<Rightarrow> None
            | Some ab \<Rightarrow>
                if energy p1 > afb_energy ab * dt then
                  Some (p1\<lparr>solid := (solid p1)\<lparr>vel :=
                              limit_speed env (vel (solid p1)) (speed p1 * afb_speed ab) dt\<rparr>,
                            energy := energy p1 - afb_energy ab * dt\<rparr>,
                        if pid p1 = PLAYER_ID
                        then emit (SpfxShake (0.75 * SHAKE_DECAY env * dt)) g else g)
                else
                  Some (p1\<lparr>solid := (solid p1)\<lparr>vel :=
                              limit_speed env (vel (solid p1)) (speed p1) dt\<rparr>\<rparr>, g))
         else
           Some (p1\<lparr>solid := (solid p1)\<lparr>vel :=
                       limit_speed env (vel (solid p1)) (speed p1) dt\<rparr>\<rparr>, g))
      else Some (p1, g))"

text \<open>
  The rest of the update of a pilot that is alive, after the regeneration: refuelling,
  boarding, engine glow, the solid and the speed limit.
\<close>

definition update_alive ::
  "UpdateEnv \<Rightarrow> Pilot \<Rightarrow> real \<Rightarrow> World \<Rightarrow> (Pilot \<times> Pilot option \<times> World) option" where
  "update_alive env p2 dt g1 =
     (let (p3, tgt) = (if pilot_isFlag p2 PILOT_REFUELBOARDING
                       then pilot_refuel p2 (pilot_get_target env) dt
                       else (p2, pilot_get_target env));
          p4 = update_board env p3 tgt;
          p5 = update_glow p4 dt
      in case update_move env p5 dt g1 of
           None \<Rightarrow> None
         | Some (p6, g2) \<Rightarrow> Some (p6, tgt, g2))"

text \<open>
  \<^verbatim>\<open>pilot_update(pilot, dt)\<close>: the pilot, the target it may have refuelled, and the
  world.
\<close>

definition pilot_update ::
  "UpdateEnv \<Rightarrow> Pilot \<Rightarrow> real \<Rightarrow> World \<Rightarrow> (Pilot \<times> Pilot option \<times> World) option" where
  "pilot_update env p dt g =
     (let p0 = update_timers p dt;
          (p1, g1, ret) = update_death p0 g
      in if ret then Some (p1, pilot_get_target env, g1)
         else if pilot_isDisabled p1 then
           Some (update_disabled env p1 dt, pilot_get_target env, g1)
         else update_alive env (update_regen p1 dt) dt g1)"

text \<open>
  The energy after the charge step of an update, in the words of the specification:
  \<open>energy + (energyMax - energy) * (1 - e^(-dt/\<tau>))\<close>, clamped to \<open>energyMax\<close>.
\<close>

definition energy_charge :: "Pilot \<Rightarrow> real \<Rightarrow> real" where
  "energy_charge p dt =
     min (energy_max p)
       (energy p + (energy_max p - energy p) * (1 - exp (- dt / energy_tau p)))"

text \<open>
  What the theorems ask of \<^verbatim>\<open>pilot_boardComplete\<close>, whose source is not at hand: it
  leaves the energy and the afterburner flag of the pilot alone.
\<close>

definition board_frame :: "UpdateEnv \<Rightarrow> bool" where
  "board_frame env =
     (\<forall>q. energy (pilot_boardComplete env q) = energy q
        \<and> pilot_isFlag (pilot_boardComplete env q) PILOT_AFTERBURNER
            = pilot_isFlag q PILOT_AFTERBURNER)"

section \<open>Hyperspace state machine (pilot.c)\<close>

text \<open>
  What \<^verbatim>\<open>pilot_hyperspace\<close> takes from outside pilot.c: the macros \<^verbatim>\<open>VMOD\<close>,
  \<^verbatim>\<open>VANGLE\<close>, \<^verbatim>\<open>MIN_VEL_ERR\<close> and \<^verbatim>\<open>MAX_DIR_ERR\<close> and the function
  \<^verbatim>\<open>angle_diff\<close> of the physics headers, the pointer comparison \<^verbatim>\<open>p == player\<close>, the
  direction of the system the player jumps to, and the length of the jump sound.
\<close>

record HypEnv =
  VMOD :: "Vector2d \<Rightarrow> real"
  VANGLE :: "Vector2d \<Rightarrow> real"
  angle_diff :: "real \<Rightarrow> real \<Rightarrow> real"
  MIN_VEL_ERR :: real
  MAX_DIR_ERR :: real
  hyp_is_player :: bool
  player_hyp_dir :: real
  sound_length_jump :: real

text \<open>\<^verbatim>\<open>pilot_face\<close>: the pilot with its turn set, and the angle left to turn.\<close>

definition pilot_face :: "HypEnv \<Rightarrow> Pilot \<Rightarrow> real \<Rightarrow> Pilot \<times> real" where
  "pilot_face env p d =
     (let diff = angle_diff env (dir (solid p)) d;
          tn = max (-1) (min 1 (- 10 * diff))
      in (pilot_setTurn p (- tn), diff))"

text \<open>
  Modelled from the spec: player.c is not under src/. \<^verbatim>\<open>player_faceHyperspace\<close> turns
  the player towards the system it is headed to ("rotate to face the jump target") and
  returns the angle left.
\<close>

definition player_faceHyperspace :: "HypEnv \<Rightarrow> Pilot \<Rightarrow> Pilot \<times> real" where
  "player_faceHyperspace env p = pilot_face env p (player_hyp_dir env)"

definition pilot_hyperspace :: "HypEnv \<Rightarrow> Pilot \<Rightarrow> real \<Rightarrow> World \<Rightarrow> Pilot \<times> World" where
  "pilot_hyperspace env p dt g =
     (let fin = (\<lambda>(q, h). if hyp_is_player env then (q, emit PlayerUpdateSpecific h) else (q, h))
      in
      if pilot_isFlag p PILOT_HYPERSPACE then
        (let snd_now = (pid p = PLAYER_ID \<and> ptimer p < sound_length_jump env
                          \<and> timer p ! 0 = -1);
             p1 = (if snd_now then p\<lparr>timer := (timer p)[0 := -2]\<rparr> else p);
             g1 = (if snd_now then emit (PlayerPlaySound ''hypPowUpJump'') g else g)
         in if ptimer p1 < 0 then
              (if pid p1 = PLAYER_ID then (p1, emit PlayerBrokeHyperspace g1)
               else (let p2 = pilot_setFlag p1 PILOT_DELETE
                     in (p2, pilot_runHook p2 PILOT_HOOK_JUMP g1)))
            else fin (pilot_setThrust p1 (HYPERSPACE_THRUST * mass (solid p1) / thrust p1), g1))
      else if pilot_isFlag p PILOT_HYP_BEGIN then
        (if ptimer p < 0 then
           (let p1 = p\<lparr>ptimer := HYPERSPACE_FLY_DELAY\<rparr>;
                p2 = pilot_setFlag p1 PILOT_HYPERSPACE;
                p3 = (if pid p2 = PLAYER_ID then p2\<lparr>timer := (timer p2)[0 := -1]\<rparr> else p2)
            in fin (p3, g))
         else fin (p, g))
      else if VMOD env (vel (solid p)) > MIN_VEL_ERR env then
        (let (p1, diff) = pilot_face env p (VANGLE env (vel (solid p)) + pi)
         in if \<bar>diff\<bar> < MAX_DIR_ERR env then fin (pilot_setThrust p1 1, g)
            else fin (pilot_setThrust p1 0, g))
      else
        (let p1 = pilot_setThrust p 0;
             (p2, diff) = (if hyp_is_player env then player_faceHyperspace env p1
                           else pilot_face env p1 (VANGLE env (pos (solid p1))))
         in if \<bar>diff\<bar> < MAX_DIR_ERR env then
              (let p3 = pilot_setTurn p2 0;
                   p4 = p3\<lparr>ptimer := HYPERSPACE_ENGINE_DELAY\<rparr>;
                   p5 = pilot_setFlag p4 PILOT_HYP_BEGIN
               in fin (p5, if pid p5 = PLAYER_ID
                           then emit (PlayerPlaySound ''hypPowUp'') g else g))
            else fin (p2, g)))"

text \<open>
  The phase of the hyperspace sequence a pilot is in, read off its flags in the order
  in which \<^verbatim>\<open>pilots_update\<close> and \<^verbatim>\<open>pilot_hyperspace\<close> test them.
\<close>

datatype hyp_phase = Cruising | Preparing | Warming | InTransit

definition phase_of :: "Pilot \<Rightarrow> hyp_phase" where
  "phase_of p =
     (if pilot_isFlag p PILOT_HYPERSPACE then InTransit
      else if pilot_isFlag p PILOT_HYP_BEGIN then Warming
      else if pilot_isFlag p PILOT_HYP_PREP then Preparing
      else Cruising)"

text \<open>The angle between the facing of the pilot and the direction of its jump.\<close>

definition hyp_facing :: "HypEnv \<Rightarrow> Solid \<Rightarrow> real" where
  "hyp_facing env s =
     (if hyp_is_player env then angle_diff env (dir s) (player_hyp_dir env)
      else angle_diff env (dir s) (VANGLE env (pos s)))"

text \<open>
  A run of hyperspace steps: before each step the physics has moved the pilot, which
  leaves it with the solid given for that tick.
\<close>

fun hyperspace_run :: "HypEnv \<Rightarrow> (real \<times> Solid) list \<Rightarrow> Pilot \<Rightarrow> World \<Rightarrow> Pilot \<times> World" where
  "hyperspace_run env [] p g = (p, g)"
| "hyperspace_run env ((dt, s) # rest) p g =
     (case pilot_hyperspace env (p\<lparr>solid := s\<rparr>) dt g of
        (p', g') \<Rightarrow> hyperspace_run env rest p' g')"

section \<open>Entity registry (pilot.c)\<close>

text \<open>
  The registry: the first \<^verbatim>\<open>pilot_nstack\<close> entries of the array \<^verbatim>\<open>pilot_stack\<close> of
  pointers, the pilots allocated (by address, reduced to the id, the one field the
  registry reads; \<open>None\<close> is memory that is not allocated), the id generator
  \<^verbatim>\<open>pilot_id\<close> and the pointer \<^verbatim>\<open>player\<close>.
\<close>

type_synonym addr = nat

record Registry =
  pilot_stack :: "addr list"
  heap :: "addr \<Rightarrow> 32 word option"
  pilot_id :: "32 word"
  player :: "addr option"

text \<open>The state at program start: no pilots, the generator at \<^verbatim>\<open>PLAYER_ID\<close>.\<close>

definition registry_init :: Registry where
  "registry_init = \<lparr>pilot_stack = [], heap = (\<lambda>a. None), pilot_id = PLAYER_ID, player = None\<rparr>"

text \<open>
  \<^verbatim>\<open>pilot_create\<close> with the part of \<^verbatim>\<open>pilot_init\<close> that touches the registry. \<open>dyn\<close> is
  the result of \<^verbatim>\<open>malloc\<close>; growing the array is taken to succeed.
\<close>

definition pilot_create :: "addr option \<Rightarrow> 32 word \<Rightarrow> Registry \<Rightarrow> 32 word \<times> Registry" where
  "pilot_create dyn fl r =
     (case dyn of
        None \<Rightarrow> (0, r)
      | Some a \<Rightarrow>
          (let r1 = r\<lparr>pilot_stack := pilot_stack r @ [a]\<rparr>;
               r2 = (if fl AND PILOT_PLAYER \<noteq> 0 then r1\<lparr>heap := (heap r1)(a := Some PLAYER_ID)\<rparr>
                     else r1\<lparr>pilot_id := pilot_id r1 + 1,
                             heap := (heap r1)(a := Some (pilot_id r1 + 1))\<rparr>);
               r3 = (if fl AND PILOT_PLAYER \<noteq> 0 \<and> \<not> fl AND PILOT_EMPTY \<noteq> 0
                     then r2\<lparr>player := Some a\<rparr> else r2)
           in (case heap r3 a of Some i \<Rightarrow> i | None \<Rightarrow> 0, r3)))"

text \<open>\<^verbatim>\<open>pilot_free\<close>, as far as the registry goes.\<close>

definition pilot_free :: "addr \<Rightarrow> Registry \<Rightarrow> Registry" where
  "pilot_free a r =
     (let r1 = (if player r = Some a then r\<lparr>player := None\<rparr> else r)
      in r1\<lparr>heap := (heap r1)(a := None)\<rparr>)"

text \<open>The linear search of \<^verbatim>\<open>pilot_destroy\<close> for the pointer, from index \<open>i\<close> on.\<close>

fun stack_find :: "addr \<Rightarrow> addr list \<Rightarrow> nat \<Rightarrow> nat" where
  "stack_find a [] i = i"
| "stack_find a (b # bs) i = (if b = a then i else stack_find a bs (Suc i))"

text \<open>
  \<^verbatim>\<open>pilot_destroy\<close>. When the pointer is not in the array, the search ends at
  \<^verbatim>\<open>pilot_nstack\<close> and \<^verbatim>\<open>memmove\<close> is called with the size \<open>-1\<close> elements: \<open>None\<close>.
\<close>

definition pilot_destroy :: "addr \<Rightarrow> Registry \<Rightarrow> Registry option" where
  "pilot_destroy a r =
     (let i = stack_find a (pilot_stack r) 0;
          r1 = pilot_free a r
      in if i < length (pilot_stack r)
         then Some (r1\<lparr>pilot_stack := take i (pilot_stack r1) @ drop (Suc i) (pilot_stack r1)\<rparr>)
         else None)"

text \<open>
  The loop of \<^verbatim>\<open>pilots_clean\<close> over the entries from index \<open>i\<close> on: the player goes to
  slot 0, the others are freed.
\<close>

fun clean_loop :: "nat list \<Rightarrow> Registry \<Rightarrow> Registry" where
  "clean_loop [] r = r"
| "clean_loop (i # is) r =
     (let a = pilot_stack r ! i
      in if player r = Some a
         then clean_loop is (r\<lparr>pilot_stack := (pilot_stack r)[0 := a]\<rparr>)
         else clean_loop is (r\<lparr>heap := (heap r)(a := None)\<rparr>))"

text \<open>
  \<^verbatim>\<open>pilots_clean\<close>. With a player and an empty array the source sets \<^verbatim>\<open>pilot_nstack\<close>
  to 1 over a slot that was never written: \<open>None\<close>.
\<close>

definition pilots_clean :: "Registry \<Rightarrow> Registry option" where
  "pilots_clean r =
     (let r1 = clean_loop [0..<length (pilot_stack r)] r
      in if player r1 \<noteq> None then
           (if pilot_stack r1 = [] then None
            else Some (r1\<lparr>pilot_stack := take 1 (pilot_stack r1)\<rparr>))
         else Some r1)"

text \<open>
  The binary search of \<^verbatim>\<open>pilot_getStackPos\<close> over the ids behind the pointers, with
  the C \<^verbatim>\<open>int\<close> variables \<^verbatim>\<open>l\<close> and \<^verbatim>\<open>h\<close> as integers (their sum stays below \<open>2^31\<close>
  for fewer than \<open>2^30\<close> pilots). \<open>None\<close> is a read through a pointer to freed memory
  or outside the array.
\<close>

function getStackPos_loop :: "32 word option list \<Rightarrow> 32 word \<Rightarrow> int \<Rightarrow> int \<Rightarrow> int option" where
  "getStackPos_loop ids i l h =
     (if l \<le> h then
        (let m = (l + h) div 2 in
         if 0 \<le> m \<and> m < int (length ids) then
           (case ids ! nat m of
              None \<Rightarrow> None
            | Some x \<Rightarrow>
                if x > i then getStackPos_loop ids i l (m - 1)
                else if x < i then getStackPos_loop ids i (m + 1) h
                else Some m)
         else None)
      else Some (- 1))"
  by pat_completeness auto
termination
  by (relation "measure (\<lambda>(ids, i, l, h). nat (h - l + 1))") auto

declare getStackPos_loop.simps [simp del]

definition pilot_getStackPos :: "32 word \<Rightarrow> Registry \<Rightarrow> int option" where
  "pilot_getStackPos i r =
     getStackPos_loop (map (heap r) (pilot_stack r)) i 0 (int (length (pilot_stack r)) - 1)"

text \<open>\<^verbatim>\<open>pilot_get\<close>: the pointer found (\<open>Some None\<close> is \<^verbatim>\<open>NULL\<close>), or \<open>None\<close> for a fault.\<close>

definition pilot_get :: "32 word \<Rightarrow> Registry \<Rightarrow> addr option option" where
  "pilot_get i r =
     (if i = PLAYER_ID then Some (player r)
      else (case pilot_getStackPos i r of
              None \<Rightarrow> None
            | Some m \<Rightarrow> if m = - 1 then Some None else Some (Some (pilot_stack r ! nat m))))"

text \<open>The ids of the pilots in the array, in array order (0 for a dangling pointer).\<close>

definition stack_ids :: "Registry \<Rightarrow> 32 word list" where
  "stack_ids r = map (\<lambda>a. case heap r a of Some i \<Rightarrow> i | None \<Rightarrow> 0) (pilot_stack r)"

text \<open>
  The registry invariant: every pointer of the array is to an allocated pilot, the ids
  are strictly ascending along the array and none is above the generator (which is at
  least \<^verbatim>\<open>PLAYER_ID\<close>), and the player, if set, is in the array.
\<close>

definition registry_inv :: "Registry \<Rightarrow> bool" where
  "registry_inv r =
     (list_all (\<lambda>a. heap r a \<noteq> None) (pilot_stack r)
      \<and> sorted_wrt (<) (stack_ids r)
      \<and> list_all (\<lambda>i. i \<le> pilot_id r) (stack_ids r)
      \<and> PLAYER_ID \<le> pilot_id r
      \<and> (case player r of None \<Rightarrow> True | Some a \<Rightarrow> a \<in> set (pilot_stack r)))"

section \<open>Example values\<close>

definition llama :: Ship where
  "llama = \<lparr>ship_name = ''Llama'', ship_mass = 32, ship_thrust = 160, ship_turn = 150,
     ship_speed = 200, ship_cpu = 10, ship_armour = 100, ship_armour_regen = 0,
     ship_shield = 50, ship_shield_regen = 4, ship_energy = 200, ship_energy_regen = 10,
     ship_fuel = 400, ship_cap_cargo = 15\<rparr>"

definition solid0 :: Solid where
  "solid0 = \<lparr>mass = 32, dir = 0, dir_vel = 0, vel = \<lparr>vx = 0, vy = 0\<rparr>,
     pos = \<lparr>vx = 100, vy = 0\<rparr>, force_x = 0\<rparr>"

definition pilot0 :: Pilot where
  "pilot0 = \<lparr>pid = 2, faction = 3, ship = llama, solid = solid0,
     mass_cargo = 0, mass_outfit = 0, cpu = 10, cpu_max = 10,
     thrust = 160, speed = 200, turn = 150, turn_base = 150,
     armour = 100, shield = 50, fuel = 400,
     armour_max = 100, shield_max = 50, fuel_max = 400,
     armour_regen = 0, shield_regen = 4,
     energy = 200, energy_max = 200, energy_regen = 10, energy_tau = 20,
     outfit_low = [], outfit_medium = [], outfit_high = [],
     secondary = None, afterburner = None, jam_range = 0, jam_chance = 0,
     commodities = [], cargo_free = 15, weap_range = 0, weap_speed = 0,
     flags = 0, ptimer = 0, lockons = 0, player_damage = 0, engine_glow = 0,
     hooks = [], target = 2, tcontrol = 0, timer = [0, 0], task = []\<rparr>"

definition ai0 :: ai_state where
  "ai0 = \<lparr>cur_pilot = pilot0, freed = [], debug = []\<rparr>"

text \<open>
  An environment for hits: a damage model that scales the raw damage per part and gives
  electromagnetic pulses no knockback, a shooter with id 1 of the player's faction.
\<close>

definition env0 :: HitEnv where
  "env0 = \<lparr>calcDamage = (\<lambda>t d. if t = DAMAGE_TYPE_EMP then (d * 0.6, d * 1.3, 0)
                                 else (d * 0.8, d * 1.2, 1)),
     p_is_player = False, player_flags = 0,
     pilot_get_faction = (\<lambda>i. if i = 1 then Some 0 else None),
     FACTION_PLAYER = 0, SHAKE_MAX = 1, areEnemies = (\<lambda>a b. False)\<rparr>"

definition world0 :: World where
  "world0 = \<lparr>player_enemies = 1, player_crating = 0, events = []\<rparr>"

text \<open>A disabled hulk without armour, the player, and the environment of a hit on the player.\<close>

definition hulk0 :: Pilot where
  "hulk0 = pilot0\<lparr>armour := 0, shield := 0, flags := PILOT_DISABLED\<rparr>"

definition envP :: HitEnv where
  "envP = env0\<lparr>p_is_player := True\<rparr>"

definition player0 :: Pilot where
  "player0 = pilot0\<lparr>pid := PLAYER_ID, faction := 0\<rparr>"

text \<open>Bolt cannons with a given delay, mounted in high slots: two of delay 1, three of delay 3.\<close>

definition zero_mod :: OutfitModificationData where
  "zero_mod = \<lparr>mod_thrust = 0, mod_thrust_rel = 0, mod_turn = 0, mod_turn_rel = 0,
     mod_speed = 0, mod_speed_rel = 0, mod_armour = 0, mod_armour_regen = 0,
     mod_shield = 0, mod_shield_regen = 0, mod_energy = 0, mod_energy_regen = 0,
     mod_cargo = 0, mod_mass_rel = 0, mod_fuel = 0\<rparr>"

definition cannon :: "string \<Rightarrow> real \<Rightarrow> Outfit" where
  "cannon n d = \<lparr>outfit_name = n, outfit_mass = 2, properties = 0, otype = OUTFIT_TYPE_BOLT,
     outfit_delay = d, outfit_energy = 1, outfit_cpu = 1, outfit_range = 500,
     outfit_speed = 600, outfit_amount = 0, ammo_ai = None, u_mod = zero_mod,
     afb_speed = 0, afb_energy = 0, jam_range_o = 0, jam_chance_o = 0, jam_energy = 0\<rparr>"

definition mounted :: "Outfit \<Rightarrow> PilotOutfitSlot" where
  "mounted ou = \<lparr>outfit = Some ou, state = PILOT_OUTFIT_OFF, otimer = 0, quantity = 1,
     beamid = 0, ammo_outfit = None, ammo_quantity = 0, ammo_deployed = 0\<rparr>"



text \<open>A pilot with a loaded missile launcher, its stats freshly calculated.\<close>

definition launcher0 :: Outfit where
  "launcher0 = (cannon ''Launcher'' 2)\<lparr>otype := OUTFIT_TYPE_LAUNCHER, outfit_amount := 10,
     ammo_ai := Some 1\<rparr>"

definition missile0 :: Outfit where
  "missile0 = (cannon ''Missile'' 0)\<lparr>otype := OUTFIT_TYPE_AMMO, outfit_mass := 1\<rparr>"

definition missile_boat :: Pilot where
  "missile_boat = pilot_calcStats (pilot0\<lparr>target := 7, outfit_high :=
     [(mounted launcher0)\<lparr>ammo_outfit := Some missile0, ammo_quantity := 5\<rparr>]\<rparr>)"

text \<open>An environment for updates without a target, and a pilot with its energy drained.\<close>

definition uenv0 :: UpdateEnv where
  "uenv0 = \<lparr>solid_step = (\<lambda>s dt. s\<lparr>dir := dir s + dir_vel s * dt\<rparr>),
     limit_speed = (\<lambda>v lim dt. v), pilot_get_target = None,
     pilot_boardComplete = (\<lambda>q. pilot_rmFlag q PILOT_BOARDING), SHAKE_DECAY = 1\<rparr>"

definition drained0 :: Pilot where
  "drained0 = pilot0\<lparr>energy := 0\<rparr>"

text \<open>
  An environment for hyperspace steps (the angle functions in the form they take for the
  small angles and positive abscissae of the examples), and pilots preparing, warming
  up, and preparing at exactly the threshold speed.
\<close>

definition henv0 :: HypEnv where
  "henv0 = \<lparr>VMOD = (\<lambda>v. sqrt ((vx v)\<^sup>2 + (vy v)\<^sup>2)),
     VANGLE = (\<lambda>v. arctan (vy v / vx v)),
     angle_diff = (\<lambda>a b. b - a),
     MIN_VEL_ERR = 5, MAX_DIR_ERR = 0.5 * pi / 180,
     hyp_is_player = False, player_hyp_dir = 0, sound_length_jump = 2\<rparr>"

definition prep0 :: Pilot where
  "prep0 = pilot0\<lparr>flags := PILOT_HYP_PREP\<rparr>"

definition warm0 :: Pilot where
  "warm0 = pilot0\<lparr>flags := PILOT_HYP_PREP OR PILOT_HYP_BEGIN, ptimer := - 1\<rparr>"

definition edge0 :: Pilot where
  "edge0 = prep0\<lparr>solid := solid0\<lparr>vel := \<lparr>vx = 5, vy = 0\<rparr>\<rparr>\<rparr>"

text \<open>
  Registries: the player created first and two more pilots after it; and a pilot created
  first with the player created after it.
\<close>

definition reg3 :: Registry where
  "reg3 = snd (pilot_create (Some 12) 0 (snd (pilot_create (Some 11) 0
            (snd (pilot_create (Some 10) PILOT_PLAYER registry_init)))))"

definition regbad :: Registry where
  "regbad = snd (pilot_create (Some 11) PILOT_PLAYER
              (snd (pilot_create (Some 10) 0 registry_init)))"

section \<open>Properties of the behaviour task stack\<close>

text \<open>
  C9. Popping a task when the task stack of the current pilot is empty is a safe no-op:
  \<^verbatim>\<open>aiL_poptask\<close> returns normally (0 Lua results, no fault), the pilot with its empty
  task stack is exactly as before, and nothing has been freed.
\<close>

theorem poptask_empty_noop:
  assumes "task (cur_pilot s) = []"
  shows "\<exists>s'. aiL_poptask s = Inr (0, s') \<and> cur_pilot s' = cur_pilot s
           \<and> task (cur_pilot s') = [] \<and> freed s' = freed s"
  using assms by (simp add: aiL_poptask_def NLUA_DEBUG_def)

theorem poptask_empty_noop_witness:
  "task (cur_pilot ai0) = [] \<and>
   (\<exists>s'. aiL_poptask ai0 = Inr (0, s') \<and> cur_pilot s' = cur_pilot ai0
           \<and> task (cur_pilot s') = [] \<and> freed s' = freed ai0)"
proof -
  have h: "task (cur_pilot ai0) = []" by (simp add: ai0_def pilot0_def)
  from poptask_empty_noop [OF h] h show ?thesis by blast
qed

text \<open>
  C10. With accepted arguments, \<^verbatim>\<open>aiL_pushtask\<close> at the head (any \<open>tpos\<close> other than 1)
  returns normally for every task stack, the empty one included, and the new task is
  the head. At the tail (\<open>tpos = 1\<close>) it walks the chain from the current head without a
  null check: on a non-empty stack the new task becomes the last one, on the empty
  stack the walk dereferences \<^verbatim>\<open>NULL\<close>.
\<close>

theorem pushtask_head_total_tail_needs_nonempty:
  assumes "pushtask_arg_ok arg3"
  shows "(if tpos \<noteq> 1 then
            \<exists>s'. aiL_pushtask tpos func arg3 s = Inr (0, s')
              \<and> task (cur_pilot s') = pushtask_new func arg3 # task (cur_pilot s)
          else if task (cur_pilot s) \<noteq> [] then
            \<exists>s'. aiL_pushtask tpos func arg3 s = Inr (0, s')
              \<and> task (cur_pilot s') = task (cur_pilot s) @ [pushtask_new func arg3]
          else aiL_pushtask tpos func arg3 s = Inl NullDeref)"
  using assms
  by (cases arg3; cases "task (cur_pilot s)")
     (auto simp: aiL_pushtask_def pushtask_arg_ok_def pushtask_new_def Let_def
           split: lua_value.splits)

theorem pushtask_head_total_tail_needs_nonempty_witness:
  "pushtask_arg_ok None
   \<and> (\<exists>s'. aiL_pushtask 0 ''attack'' None ai0 = Inr (0, s')
        \<and> task (cur_pilot s') = [pushtask_new ''attack'' None])
   \<and> aiL_pushtask 1 ''attack'' None ai0 = Inl NullDeref"
proof -
  have h: "pushtask_arg_ok None" by (simp add: pushtask_arg_ok_def)
  have e: "task (cur_pilot ai0) = []" by (simp add: ai0_def pilot0_def)
  from pushtask_head_total_tail_needs_nonempty [OF h, of 0 "''attack''" ai0]
       pushtask_head_total_tail_needs_nonempty [OF h, of 1 "''attack''" ai0] e h
  show ?thesis by simp
qed

section \<open>Properties of the combat resolver\<close>

subsection \<open>What each block of \<^verbatim>\<open>pilot_hit\<close> leaves alone\<close>

lemma pilot_dead_frame:
  "armour (fst (pilot_dead p g)) = armour p"
  "shield (fst (pilot_dead p g)) = shield p"
  "armour_max (fst (pilot_dead p g)) = armour_max p"
  "shield_max (fst (pilot_dead p g)) = shield_max p"
  "energy (fst (pilot_dead p g)) = energy p"
  "solid (fst (pilot_dead p g)) = solid p"
  by (simp_all add: pilot_dead_def Let_def pilot_setFlag_def pilot_rmFlag_def)

lemma pilot_rmHostile_frame:
  "armour (fst (pilot_rmHostile p g)) = armour p"
  "shield (fst (pilot_rmHostile p g)) = shield p"
  "armour_max (fst (pilot_rmHostile p g)) = armour_max p"
  "shield_max (fst (pilot_rmHostile p g)) = shield_max p"
  "energy (fst (pilot_rmHostile p g)) = energy p"
  "solid (fst (pilot_rmHostile p g)) = solid p"
  "ship (fst (pilot_rmHostile p g)) = ship p"
  "hooks (fst (pilot_rmHostile p g)) = hooks p"
  by (simp_all add: pilot_rmHostile_def Let_def pilot_setFlag_def pilot_rmFlag_def)

lemma hit_disable_frame:
  "armour (fst (hit_disable env p s g)) = armour p"
  "shield (fst (hit_disable env p s g)) = shield p"
  "armour_max (fst (hit_disable env p s g)) = armour_max p"
  "shield_max (fst (hit_disable env p s g)) = shield_max p"
  "energy (fst (hit_disable env p s g)) = energy p"
  "solid (fst (hit_disable env p s g)) = solid p"
  by (simp_all add: hit_disable_def Let_def pilot_setFlag_def pilot_rmHostile_frame case_prod_beta)

lemma hit_dead_frame:
  "armour (fst (hit_dead env p s da dm g)) = (if armour p \<le> 0 then 0 else armour p)"
  "shield (fst (hit_dead env p s da dm g)) = shield p"
  "armour_max (fst (hit_dead env p s da dm g)) = armour_max p"
  "shield_max (fst (hit_dead env p s da dm g)) = shield_max p"
  "energy (fst (hit_dead env p s da dm g)) = energy p"
  by (simp_all add: hit_dead_def Let_def pilot_dead_frame case_prod_beta)

lemma hit_knockback_frame:
  "armour (hit_knockback p w kb dm) = armour p"
  "shield (hit_knockback p w kb dm) = shield p"
  "armour_max (hit_knockback p w kb dm) = armour_max p"
  "shield_max (hit_knockback p w kb dm) = shield_max p"
  "energy (hit_knockback p w kb dm) = energy p"
  "flags (hit_knockback p w kb dm) = flags p"
  by (simp_all add: hit_knockback_def split: option.splits)

lemma pilot_hit_armour:
  "armour (fst (snd (pilot_hit env p w shooter dtype damage g))) =
     (let a = armour (snd (snd (hit_absorb p dtype (fst (calcDamage env dtype damage))
                 (fst (snd (calcDamage env dtype damage))))))
      in if a \<le> 0 then 0 else a)"
  by (simp add: pilot_hit_def Let_def case_prod_beta hit_knockback_frame hit_dead_frame
        hit_disable_frame)

lemma pilot_hit_shield:
  "shield (fst (snd (pilot_hit env p w shooter dtype damage g))) =
     shield (snd (snd (hit_absorb p dtype (fst (calcDamage env dtype damage))
                 (fst (snd (calcDamage env dtype damage))))))"
  by (simp add: pilot_hit_def Let_def case_prod_beta hit_knockback_frame hit_dead_frame
        hit_disable_frame)

lemma pilot_hit_maxes:
  "armour_max (fst (snd (pilot_hit env p w shooter dtype damage g))) = armour_max p"
  "shield_max (fst (snd (pilot_hit env p w shooter dtype damage g))) = shield_max p"
  by (simp_all add: pilot_hit_def Let_def case_prod_beta hit_knockback_frame hit_dead_frame
        hit_disable_frame hit_absorb_def)

text \<open>
  C1. For a pilot whose armour and shield start within \<open>[0, max]\<close> and a non-negative
  damage input (with non-negative shield and armour parts), armour and shield after
  \<^verbatim>\<open>pilot_hit\<close> lie within \<open>[0, armour_max]\<close> and \<open>[0, shield_max]\<close>. The shield is
  exactly 0 once the hit exhausts it, and the armour is the armour less the spill-over,
  clamped at 0.
\<close>

theorem pilot_hit_bounds:
  assumes "0 \<le> armour p" "armour p \<le> armour_max p"
      and "0 \<le> shield p" "shield p \<le> shield_max p"
      and "0 \<le> damage" "nonneg_damage env dtype damage"
      and "pilot_hit env p w shooter dtype damage g = (dmg, p', g')"
      and "calcDamage env dtype damage = (ds, da, kb)"
  shows "0 \<le> armour p' \<and> armour p' \<le> armour_max p'
       \<and> 0 \<le> shield p' \<and> shield p' \<le> shield_max p'
       \<and> shield p' =
           (if pilot_isDisabled p \<and> dtype = DAMAGE_TYPE_EMP then shield p
            else if shield p - ds > 0 then shield p - ds else 0)
       \<and> armour p' =
           (if pilot_isDisabled p \<and> dtype = DAMAGE_TYPE_EMP then armour p
            else if shield p - ds > 0 then armour p
            else if shield p > 0 then max 0 (armour p - (1 - shield p / ds) * da)
            else max 0 (armour p - da))"
proof -
  have ds: "0 \<le> ds" and da: "0 \<le> da"
    using assms(6,8) by (simp_all add: nonneg_damage_def)
  have p': "p' = fst (snd (pilot_hit env p w shooter dtype damage g))"
    using assms(7) by simp
  define spill where "spill = (1 - shield p / ds) * da"
  have frac: "0 \<le> spill" if "0 < shield p" "shield p \<le> ds"
  proof -
    from that have "shield p / ds \<le> 1" using ds by (simp add: divide_le_eq)
    with da show ?thesis by (simp add: spill_def)
  qed
  have sh: "shield p' =
           (if pilot_isDisabled p \<and> dtype = DAMAGE_TYPE_EMP then shield p
            else if shield p - ds > 0 then shield p - ds else 0)"
    using assms(3) by (auto simp: p' pilot_hit_shield assms(8) hit_absorb_def)
  have ar: "armour p' =
           (if pilot_isDisabled p \<and> dtype = DAMAGE_TYPE_EMP then armour p
            else if shield p - ds > 0 then armour p
            else if shield p > 0 then max 0 (armour p - spill)
            else max 0 (armour p - da))"
    using assms(1) da
    by (auto simp: p' pilot_hit_armour assms(8) hit_absorb_def Let_def max_def spill_def)
  have mx: "armour_max p' = armour_max p" "shield_max p' = shield_max p"
    by (simp_all add: p' pilot_hit_maxes)
  have b1: "0 \<le> armour p' \<and> armour p' \<le> armour_max p'"
  proof (cases "0 < shield p \<and> shield p \<le> ds")
    case True
    then have "0 \<le> spill" using frac by simp
    then show ?thesis using assms(1,2) da unfolding ar mx by (auto simp: max_def)
  next
    case False
    then show ?thesis using assms(1,2) da unfolding ar mx by (auto simp: max_def)
  qed
  have b2: "0 \<le> shield p' \<and> shield p' \<le> shield_max p'"
    using assms(3,4) ds unfolding sh mx by auto
  show ?thesis using b1 b2 sh ar unfolding spill_def by blast
qed

theorem pilot_hit_bounds_witness:
  "0 \<le> armour pilot0 \<and> armour pilot0 \<le> armour_max pilot0
   \<and> 0 \<le> shield pilot0 \<and> shield pilot0 \<le> shield_max pilot0
   \<and> nonneg_damage env0 DAMAGE_TYPE_KINETIC 100
   \<and> armour (fst (snd (pilot_hit env0 pilot0 None 1 DAMAGE_TYPE_KINETIC 100 world0))) = 55
   \<and> shield (fst (snd (pilot_hit env0 pilot0 None 1 DAMAGE_TYPE_KINETIC 100 world0))) = 0"
proof -
  let ?r = "pilot_hit env0 pilot0 None 1 DAMAGE_TYPE_KINETIC 100 world0"
  have h1: "0 \<le> armour pilot0" "armour pilot0 \<le> armour_max pilot0"
           "0 \<le> shield pilot0" "shield pilot0 \<le> shield_max pilot0"
    by (simp_all add: pilot0_def)
  have h2: "nonneg_damage env0 DAMAGE_TYPE_KINETIC 100"
    by (simp add: nonneg_damage_def env0_def)
  have h3: "?r = (fst ?r, fst (snd ?r), snd (snd ?r))" by simp
  have h4: "calcDamage env0 DAMAGE_TYPE_KINETIC 100 = (80, 120, 1)"
    by (simp add: env0_def)
  have nd: "\<not> pilot_isDisabled pilot0"
    by (simp add: pilot_isDisabled_def pilot_isFlag_def pilot0_def)
  have v: "shield pilot0 = 50" "armour pilot0 = 100" by (simp_all add: pilot0_def)
  from pilot_hit_bounds [OF h1 _ h2 h3 h4]
  have "armour (fst (snd ?r)) = 55 \<and> shield (fst (snd ?r)) = 0"
    using nd v by simp
  with h1 h2 show ?thesis by blast
qed

subsection \<open>Flags, hooks and the blocks of a hit\<close>

lemma flag_or_same: "((x::32 word) OR f) AND f = f"
  by (simp add: bit_eq_iff bit_and_iff bit_or_iff)

lemma flag_or_other: "f AND f' = 0 \<Longrightarrow> ((x::32 word) OR f) AND f' = x AND f'"
  by (simp add: bit.conj_disj_distrib2)

lemma flag_rm_same: "((x::32 word) AND NOT f) AND f = 0"
  by (simp add: bit_eq_iff bit_and_iff bit_not_iff)

lemma flag_rm_other: "f AND f' = 0 \<Longrightarrow> ((x::32 word) AND NOT f) AND f' = x AND f'"
proof -
  assume a: "f AND f' = 0"
  have "\<And>n. bit f n \<Longrightarrow> bit f' n \<Longrightarrow> False"
  proof -
    fix n assume "bit f n" "bit f' n"
    then have "bit (f AND f') n" by (simp add: bit_and_iff)
    with a show False by simp
  qed
  then show ?thesis
    by (auto simp: bit_eq_iff bit_and_iff bit_not_iff)
qed

lemma isFlag_setFlag_same: "f \<noteq> 0 \<Longrightarrow> pilot_isFlag (pilot_setFlag p f) f"
  by (simp add: pilot_isFlag_def pilot_setFlag_def flag_or_same)

lemma isFlag_setFlag_other:
  "f AND f' = 0 \<Longrightarrow> pilot_isFlag (pilot_setFlag p f) f' = pilot_isFlag p f'"
  by (simp add: pilot_isFlag_def pilot_setFlag_def flag_or_other)

lemma isFlag_rmFlag_same: "\<not> pilot_isFlag (pilot_rmFlag p f) f"
  by (simp add: pilot_isFlag_def pilot_rmFlag_def flag_rm_same)

lemma isFlag_rmFlag_other:
  "f AND f' = 0 \<Longrightarrow> pilot_isFlag (pilot_rmFlag p f) f' = pilot_isFlag p f'"
  by (simp add: pilot_isFlag_def pilot_rmFlag_def flag_rm_other)

lemma flag_disjoint:
  "PILOT_HYP_PREP AND PILOT_DISABLED = 0" "PILOT_HYP_BEGIN AND PILOT_DISABLED = 0"
  "PILOT_HYPERSPACE AND PILOT_DISABLED = 0" "PILOT_DEAD AND PILOT_DISABLED = 0"
  "PILOT_HYP_PREP AND PILOT_HOSTILE = 0" "PILOT_HYP_BEGIN AND PILOT_HOSTILE = 0"
  "PILOT_HYPERSPACE AND PILOT_HOSTILE = 0" "PILOT_DEAD AND PILOT_HOSTILE = 0"
  "PILOT_DISABLED AND PILOT_HOSTILE = 0" "PILOT_HOSTILE AND PILOT_DISABLED = 0"
  "PILOT_DISABLED \<noteq> 0" "PILOT_HOSTILE \<noteq> 0" "PILOT_DEAD \<noteq> 0"
  by (simp_all add: PILOT_HYP_PREP_def PILOT_HYP_BEGIN_def PILOT_HYPERSPACE_def
        PILOT_DEAD_def PILOT_DISABLED_def PILOT_HOSTILE_def)

lemma pilot_dead_isFlag:
  assumes "PILOT_HYP_PREP AND f = 0" "PILOT_HYP_BEGIN AND f = 0"
          "PILOT_HYPERSPACE AND f = 0" "PILOT_DEAD AND f = 0"
  shows "pilot_isFlag (fst (pilot_dead p g)) f = pilot_isFlag p f"
proof -
  have t: "pilot_isFlag (q\<lparr>timer := ts\<rparr>) f = pilot_isFlag q f"
          "pilot_isFlag (q\<lparr>ptimer := x\<rparr>) f = pilot_isFlag q f"
          "pilot_isFlag (q\<lparr>timer := ts\<rparr>) f' = pilot_isFlag q f'" for q ts x f'
    by (simp_all add: pilot_isFlag_def)
  show ?thesis
    by (simp add: pilot_dead_def Let_def isFlag_setFlag_other isFlag_rmFlag_other assms t
          del: One_nat_def)
qed

lemma disable_hook_runs_append [simp]:
  "disable_hook_runs (xs @ ys) = disable_hook_runs xs @ disable_hook_runs ys"
  by (simp add: disable_hook_runs_def)

lemma disable_hook_runs_single [simp]:
  "disable_hook_runs [] = []"
  "disable_hook_runs [PlayerDead] = []"
  "disable_hook_runs [FactionModPlayer a b] = []"
  "disable_hook_runs [SpfxShake x] = []"
  "disable_hook_runs [PlayerAbortAutonav m] = []"
  "disable_hook_runs [MusicChoose m] = []"
  by (simp_all add: disable_hook_runs_def)

lemma disable_hook_runs_death:
  "disable_hook_runs (map (\<lambda>h. HookRun PILOT_HOOK_DEATH (hook_id h)) hs) = []"
  by (induction hs) (simp_all add: disable_hook_runs_def PILOT_HOOK_DEATH_def
        PILOT_HOOK_DISABLE_def)

lemma disable_hook_runs_disable:
  "disable_hook_runs (map (\<lambda>h. HookRun PILOT_HOOK_DISABLE (hook_id h)) hs) = map hook_id hs"
  by (induction hs) (simp_all add: disable_hook_runs_def)

lemma pilot_dead_world:
  "player_enemies (snd (pilot_dead p g)) = player_enemies g"
  "player_crating (snd (pilot_dead p g)) = player_crating g"
  "disable_hook_runs (events (snd (pilot_dead p g))) = disable_hook_runs (events g)"
  by (simp_all add: pilot_dead_def Let_def pilot_runHook_def emit_def
        disable_hook_runs_death)

lemma hit_dead_world:
  "player_enemies (fst (snd (hit_dead env p s da dm g))) = player_enemies g"
  "player_crating (fst (snd (hit_dead env p s da dm g))) = player_crating g"
  "disable_hook_runs (events (fst (snd (hit_dead env p s da dm g)))) = disable_hook_runs (events g)"
  by (simp_all add: hit_dead_def Let_def case_prod_beta pilot_dead_world emit_def
        split: option.splits)

lemma hit_dead_isFlag:
  assumes "PILOT_HYP_PREP AND f = 0" "PILOT_HYP_BEGIN AND f = 0"
          "PILOT_HYPERSPACE AND f = 0" "PILOT_DEAD AND f = 0"
  shows "pilot_isFlag (fst (hit_dead env p s da dm g)) f = pilot_isFlag p f"
proof -
  have a: "pilot_isFlag (q\<lparr>armour := x\<rparr>) f' = pilot_isFlag q f'" for q x f'
    by (simp add: pilot_isFlag_def)
  show ?thesis
    by (simp add: hit_dead_def Let_def case_prod_beta pilot_dead_isFlag [OF assms] a)
qed

lemma hit_absorb_isFlag:
  "pilot_isFlag (snd (snd (hit_absorb p t ds da))) f = pilot_isFlag p f"
  by (simp add: pilot_isFlag_def hit_absorb_def)

lemma hit_absorb_frame:
  "flags (snd (snd (hit_absorb p t ds da))) = flags p"
  "ship (snd (snd (hit_absorb p t ds da))) = ship p"
  "hooks (snd (snd (hit_absorb p t ds da))) = hooks p"
  "faction (snd (snd (hit_absorb p t ds da))) = faction p"
  by (simp_all add: hit_absorb_def)


lemma pilot_rmHostile_flags:
  "\<not> pilot_isFlag (fst (pilot_rmHostile p g)) PILOT_HOSTILE"
  "pilot_isFlag (fst (pilot_rmHostile p g)) PILOT_DISABLED = pilot_isFlag p PILOT_DISABLED"
  by (simp_all add: pilot_rmHostile_def Let_def isFlag_rmFlag_same isFlag_rmFlag_other
        flag_disjoint)

lemma pilot_rmHostile_world:
  "\<not> pilot_isDisabled p \<Longrightarrow> player_enemies (snd (pilot_rmHostile p g)) =
     (if pilot_isFlag p PILOT_HOSTILE then max 0 (player_enemies g - 1) else player_enemies g)"
  "player_crating (snd (pilot_rmHostile p g)) = player_crating g"
  "disable_hook_runs (events (snd (pilot_rmHostile p g))) = disable_hook_runs (events g)"
  by (simp_all add: pilot_rmHostile_def Let_def emit_def max_def)

lemma pilot_runHook_world:
  "player_enemies (pilot_runHook p t g) = player_enemies g"
  "player_crating (pilot_runHook p t g) = player_crating g"
  "disable_hook_runs (events (pilot_runHook p PILOT_HOOK_DISABLE g)) =
     disable_hook_runs (events g)
       @ map hook_id (filter (\<lambda>h. hook_type h = PILOT_HOOK_DISABLE) (hooks p))"
  by (simp_all add: pilot_runHook_def disable_hook_runs_disable)

lemma hit_disable_skip:
  "pilot_isFlag p PILOT_DISABLED \<Longrightarrow> hit_disable env p s g = (p, g)"
  by (simp add: hit_disable_def)

lemma hit_disable_fire:
  assumes "\<not> pilot_isFlag p PILOT_DISABLED" "\<not> p_is_player env"
      and "armour p < PILOT_DISABLED_ARMOR * ship_armour (ship p)"
  shows "pilot_isFlag (fst (hit_disable env p s g)) PILOT_DISABLED"
    and "pilot_isFlag (fst (hit_disable env p s g)) PILOT_HOSTILE = pilot_isHostile env p"
    and "player_enemies (snd (hit_disable env p s g)) =
           (if pilot_isFlag p PILOT_HOSTILE then max 0 (player_enemies g - 1)
            else player_enemies g)"
    and "player_crating (snd (hit_disable env p s g)) =
           player_crating g +
             (if pilot_get_faction env s = Some (FACTION_PLAYER env)
              then real_of_int (2 * c_trunc (ship_mass (ship p) powr 0.4 - 1)) else 0)"
    and "disable_hook_runs (events (snd (hit_disable env p s g))) =
           disable_hook_runs (events g)
             @ map hook_id (filter (\<lambda>h. hook_type h = PILOT_HOOK_DISABLE) (hooks p))"
proof -
  have nd: "\<not> pilot_isDisabled p" using assms(1) by (simp add: pilot_isDisabled_def)
  have sf: "ship (pilot_setFlag q f) = ship q" "hooks (pilot_setFlag q f) = hooks q" for q f
    by (simp_all add: pilot_setFlag_def)
  show "pilot_isFlag (fst (hit_disable env p s g)) PILOT_DISABLED"
    using assms by (simp add: hit_disable_def Let_def case_prod_beta isFlag_setFlag_same
        flag_disjoint)
  show "pilot_isFlag (fst (hit_disable env p s g)) PILOT_HOSTILE = pilot_isHostile env p"
    using assms
    by (simp add: hit_disable_def Let_def case_prod_beta isFlag_setFlag_same
        isFlag_setFlag_other flag_disjoint pilot_rmHostile_flags)
  show "player_enemies (snd (hit_disable env p s g)) =
           (if pilot_isFlag p PILOT_HOSTILE then max 0 (player_enemies g - 1)
            else player_enemies g)"
    using assms nd
    by (simp add: hit_disable_def Let_def case_prod_beta pilot_runHook_world
        pilot_rmHostile_world split: option.splits)
  show "player_crating (snd (hit_disable env p s g)) =
           player_crating g +
             (if pilot_get_faction env s = Some (FACTION_PLAYER env)
              then real_of_int (2 * c_trunc (ship_mass (ship p) powr 0.4 - 1)) else 0)"
    using assms
    by (simp add: hit_disable_def Let_def case_prod_beta pilot_runHook_world
        pilot_rmHostile_world pilot_rmHostile_frame sf split: option.splits)
  show "disable_hook_runs (events (snd (hit_disable env p s g))) =
           disable_hook_runs (events g)
             @ map hook_id (filter (\<lambda>h. hook_type h = PILOT_HOOK_DISABLE) (hooks p))"
    using assms
    by (simp add: hit_disable_def Let_def case_prod_beta pilot_runHook_world
        pilot_rmHostile_world pilot_rmHostile_frame sf split: option.splits)
qed

lemma pilot_hit_unfold:
  "pilot_hit env p w shooter dtype damage g =
     (let cd = calcDamage env dtype damage;
          pflags = (if p_is_player env then flags p else player_flags env);
          g0 = (if w \<noteq> None \<and> pid p = PLAYER_ID \<and> pflags AND PILOT_HYP_BEGIN = 0
                   \<and> pflags AND PILOT_HYPERSPACE = 0
                then emit (PlayerAbortAutonav ''Sustaining Damage'') g else g);
          ab = hit_absorb p dtype (fst cd) (fst (snd cd));
          ds = hit_disable env (snd (snd ab)) shooter g0;
          dd = hit_dead env (fst ds) shooter (fst (snd cd)) (fst (snd ab)) (snd ds)
      in (fst ab, hit_knockback (fst dd) w (snd (snd cd)) (snd (snd dd)), fst (snd dd)))"
  by (simp add: pilot_hit_def Let_def case_prod_beta)

lemma autonav_world:
  "player_enemies (if c then emit e g else g) = player_enemies g"
  "player_crating (if c then emit e g else g) = player_crating g"
  "disable_hook_runs (events (if c then emit (PlayerAbortAutonav m) g else g))
     = disable_hook_runs (events g)"
  by (simp_all add: emit_def)

lemma hit_knockback_isFlag:
  "pilot_isFlag (hit_knockback p w kb dm) f = pilot_isFlag p f"
  by (simp add: pilot_isFlag_def hit_knockback_frame)

lemma llama_rating: "(32::real) powr 0.4 = 4"
proof -
  have "(32::real) = 2 powr 5" by simp
  then have "(32::real) powr 0.4 = (2 powr 5) powr 0.4" by simp
  also have "\<dots> = 2 powr 2" by (simp only: powr_powr) simp
  finally show ?thesis by simp
qed

text \<open>
  C2, as amended. For every pilot other than the player that is not yet disabled and
  whose armour after the hit is below \<open>PILOT_DISABLED_ARMOR\<close> times the armour of its
  ship, \<^verbatim>\<open>pilot_hit\<close> marks it disabled, takes it off the count of the player's enemies
  (a hostile flag counts once) while its hostile flag afterwards says whether it was
  hostile before (so the player can still target it), credits a shooter of the player's
  faction with twice the truncation of \<open>ship_mass powr 0.4 - 1\<close> as combat rating, and
  runs its disable hooks. For a pilot that is already disabled, a hit (whatever else it
  does) leaves the disabled flag set and changes neither the hostile flag, the enemy
  count, the combat rating nor the disable hooks run.
\<close>

theorem disable_transition_once:
  fixes env p w shooter dtype damage g
  defines "p' \<equiv> fst (snd (pilot_hit env p w shooter dtype damage g))"
      and "g' \<equiv> snd (snd (pilot_hit env p w shooter dtype damage g))"
  shows "(\<not> pilot_isFlag p PILOT_DISABLED \<and> \<not> p_is_player env
          \<and> armour_absorbed env p dtype damage < PILOT_DISABLED_ARMOR * ship_armour (ship p)
          \<longrightarrow> pilot_isFlag p' PILOT_DISABLED
            \<and> pilot_isFlag p' PILOT_HOSTILE = pilot_isHostile env p
            \<and> player_enemies g' =
                (if pilot_isFlag p PILOT_HOSTILE then max 0 (player_enemies g - 1)
                 else player_enemies g)
            \<and> player_crating g' =
                player_crating g +
                  (if pilot_get_faction env shooter = Some (FACTION_PLAYER env)
                   then real_of_int (2 * c_trunc (ship_mass (ship p) powr 0.4 - 1)) else 0)
            \<and> disable_hook_runs (events g') =
                disable_hook_runs (events g)
                  @ map hook_id (filter (\<lambda>h. hook_type h = PILOT_HOOK_DISABLE) (hooks p)))
       \<and> (pilot_isFlag p PILOT_DISABLED
          \<longrightarrow> pilot_isFlag p' PILOT_DISABLED
            \<and> pilot_isFlag p' PILOT_HOSTILE = pilot_isFlag p PILOT_HOSTILE
            \<and> player_enemies g' = player_enemies g
            \<and> player_crating g' = player_crating g
            \<and> disable_hook_runs (events g') = disable_hook_runs (events g))"
proof (intro conjI impI)
  let ?cd = "calcDamage env dtype damage"
  let ?ab = "hit_absorb p dtype (fst ?cd) (fst (snd ?cd))"
  let ?p1 = "snd (snd ?ab)"
  have fl: "pilot_isFlag ?p1 f = pilot_isFlag p f" for f
    by (simp add: pilot_isFlag_def hit_absorb_frame)
  have ho: "pilot_isHostile env ?p1 = pilot_isHostile env p"
    by (simp add: pilot_isHostile_def fl hit_absorb_frame)
  {
    assume a: "\<not> pilot_isFlag p PILOT_DISABLED \<and> \<not> p_is_player env
          \<and> armour_absorbed env p dtype damage < PILOT_DISABLED_ARMOR * ship_armour (ship p)"
    then have c: "\<not> pilot_isFlag ?p1 PILOT_DISABLED" "\<not> p_is_player env"
        "armour ?p1 < PILOT_DISABLED_ARMOR * ship_armour (ship ?p1)"
      by (simp_all add: fl armour_absorbed_def hit_absorb_frame)
    note f = hit_disable_fire [OF c]
    show "pilot_isFlag p' PILOT_DISABLED"
      by (simp add: p'_def pilot_hit_unfold Let_def hit_knockback_isFlag hit_dead_isFlag
            flag_disjoint f)
    show "pilot_isFlag p' PILOT_HOSTILE = pilot_isHostile env p"
      by (simp add: p'_def pilot_hit_unfold Let_def hit_knockback_isFlag hit_dead_isFlag
            flag_disjoint f ho)
    show "player_enemies g' =
            (if pilot_isFlag p PILOT_HOSTILE then max 0 (player_enemies g - 1)
             else player_enemies g)"
      by (simp add: g'_def pilot_hit_unfold Let_def hit_dead_world f fl autonav_world)
    show "player_crating g' =
            player_crating g +
              (if pilot_get_faction env shooter = Some (FACTION_PLAYER env)
               then real_of_int (2 * c_trunc (ship_mass (ship p) powr 0.4 - 1)) else 0)"
      by (simp add: g'_def pilot_hit_unfold Let_def hit_dead_world f hit_absorb_frame
            autonav_world)
    show "disable_hook_runs (events g') =
            disable_hook_runs (events g)
              @ map hook_id (filter (\<lambda>h. hook_type h = PILOT_HOOK_DISABLE) (hooks p))"
      by (simp add: g'_def pilot_hit_unfold Let_def hit_dead_world f hit_absorb_frame
            autonav_world)
  }
  {
    assume d: "pilot_isFlag p PILOT_DISABLED"
    then have s: "hit_disable env ?p1 shooter g0 = (?p1, g0)" for g0
      by (simp add: hit_disable_skip fl)
    show "pilot_isFlag p' PILOT_DISABLED"
      using d by (simp add: p'_def pilot_hit_unfold Let_def hit_knockback_isFlag
            hit_dead_isFlag flag_disjoint s fl)
    show "pilot_isFlag p' PILOT_HOSTILE = pilot_isFlag p PILOT_HOSTILE"
      by (simp add: p'_def pilot_hit_unfold Let_def hit_knockback_isFlag
            hit_dead_isFlag flag_disjoint s fl)
    show "player_enemies g' = player_enemies g"
      by (simp add: g'_def pilot_hit_unfold Let_def hit_dead_world s autonav_world)
    show "player_crating g' = player_crating g"
      by (simp add: g'_def pilot_hit_unfold Let_def hit_dead_world s autonav_world)
    show "disable_hook_runs (events g') = disable_hook_runs (events g)"
      by (simp add: g'_def pilot_hit_unfold Let_def hit_dead_world s autonav_world)
  }
qed

theorem disable_transition_once_witness:
  "\<not> pilot_isFlag pilot0 PILOT_DISABLED \<and> \<not> p_is_player env0
   \<and> armour_absorbed env0 pilot0 DAMAGE_TYPE_KINETIC 130
        < PILOT_DISABLED_ARMOR * ship_armour (ship pilot0)
   \<and> pilot_isFlag (fst (snd (pilot_hit env0 pilot0 None 1 DAMAGE_TYPE_KINETIC 130 world0)))
        PILOT_DISABLED
   \<and> player_crating (snd (snd (pilot_hit env0 pilot0 None 1 DAMAGE_TYPE_KINETIC 130 world0)))
        = 6
   \<and> pilot_isFlag hulk0 PILOT_DISABLED
   \<and> player_crating (snd (snd (pilot_hit env0 hulk0 None 1 DAMAGE_TYPE_KINETIC 130 world0)))
        = player_crating world0"
proof -
  have h1: "\<not> pilot_isFlag pilot0 PILOT_DISABLED" "\<not> p_is_player env0"
    by (simp_all add: pilot_isFlag_def pilot0_def env0_def)
  have h2: "armour_absorbed env0 pilot0 DAMAGE_TYPE_KINETIC 130
        < PILOT_DISABLED_ARMOR * ship_armour (ship pilot0)"
    by (simp add: armour_absorbed_def hit_absorb_def env0_def pilot0_def llama_def
          pilot_isDisabled_def pilot_isFlag_def PILOT_DISABLED_ARMOR_def)
  have h3: "pilot_isFlag hulk0 PILOT_DISABLED"
    by (simp add: hulk0_def pilot_isFlag_def PILOT_DISABLED_def)
  have v: "pilot_get_faction env0 1 = Some (FACTION_PLAYER env0)"
          "ship_mass (ship pilot0) = 32" "player_crating world0 = 0"
    by (simp_all add: env0_def pilot0_def llama_def world0_def)
  have t: "c_trunc 3 = 3" by (simp add: c_trunc_def)
  from disable_transition_once [where p = pilot0 and env = env0
         and dtype = DAMAGE_TYPE_KINETIC and damage = 130 and w = None and shooter = 1
         and g = world0] h1 h2
  have a: "pilot_isFlag (fst (snd (pilot_hit env0 pilot0 None 1 DAMAGE_TYPE_KINETIC 130 world0)))
        PILOT_DISABLED
     \<and> player_crating (snd (snd (pilot_hit env0 pilot0 None 1 DAMAGE_TYPE_KINETIC 130 world0)))
        = 6"
    by (simp add: v llama_rating t)
  from disable_transition_once [where p = hulk0 and env = env0
         and dtype = DAMAGE_TYPE_KINETIC and damage = 130 and w = None and shooter = 1
         and g = world0] h3
  have b: "player_crating (snd (snd (pilot_hit env0 hulk0 None 1 DAMAGE_TYPE_KINETIC 130 world0)))
        = player_crating world0"
    by simp
  from h1 h2 h3 a b show ?thesis by blast
qed

theorem disable_skips_player_counterexample:
  "\<not> pilot_isFlag player0 PILOT_DISABLED
   \<and> armour_absorbed envP player0 DAMAGE_TYPE_KINETIC 130
        < PILOT_DISABLED_ARMOR * armour_max player0
   \<and> \<not> pilot_isFlag (fst (snd (pilot_hit envP player0 None 2 DAMAGE_TYPE_KINETIC 130 world0)))
        PILOT_DISABLED"
proof -
  have n: "\<not> pilot_isFlag player0 PILOT_DISABLED"
    by (simp add: pilot_isFlag_def player0_def pilot0_def)
  have cd: "calcDamage envP DAMAGE_TYPE_KINETIC 130 = (104, 156, 1)"
    by (simp add: envP_def env0_def)
  have v: "shield player0 = 50" "armour player0 = 100" "armour_max player0 = 100"
    by (simp_all add: player0_def pilot0_def)
  have h2: "armour_absorbed envP player0 DAMAGE_TYPE_KINETIC 130
        < PILOT_DISABLED_ARMOR * armour_max player0"
    using n by (simp add: armour_absorbed_def cd hit_absorb_def pilot_isDisabled_def v
          PILOT_DISABLED_ARMOR_def)
  have pl: "p_is_player envP" by (simp add: envP_def)
  have hd: "hit_disable envP q s g = (q, g)" for q s g
    using pl by (simp add: hit_disable_def)
  have "\<not> pilot_isFlag (fst (snd (pilot_hit envP player0 None 2 DAMAGE_TYPE_KINETIC 130 world0)))
        PILOT_DISABLED"
    using n
    by (simp add: pilot_hit_unfold Let_def hd hit_knockback_isFlag hit_dead_isFlag
          flag_disjoint hit_absorb_isFlag)
  with n h2 show ?thesis by blast
qed




section \<open>Properties of the weapon firing scheduler\<close>









section \<open>Properties of the mass model\<close>

lemma updateMass_mass_ok [simp]: "mass_ok (pilot_updateMass p) = mass_ok p"
  by (simp add: mass_ok_def pilot_updateMass_def)

lemma calcStats_mass_ok: "mass_ok (pilot_calcStats p)"
  by (simp add: pilot_calcStats_def Let_def case_prod_beta, simp add: mass_ok_def)

lemma equip_mass_ok: "mass_ok (equip_outfit p ou i)" "mass_ok (unequip_outfit p i)"
  by (simp_all add: equip_outfit_def unequip_outfit_def calcStats_mass_ok)

lemma cargo_tweak_mass_ok: "mass_ok p \<Longrightarrow> mass_ok (cargo_tweak p q)"
  by (simp add: cargo_tweak_def) (simp add: mass_ok_def)

lemma commodities_mass_ok [simp]: "mass_ok (p\<lparr>commodities := cs\<rparr>) = mass_ok p"
  by (simp add: mass_ok_def)

lemma addCargo_mass_ok: "mass_ok p \<Longrightarrow> mass_ok (snd (pilot_addCargoRaw p c q i))"
  by (simp add: pilot_addCargoRaw_def Let_def cargo_tweak_mass_ok split: option.splits)

lemma rmCargo_mass_ok: "mass_ok p \<Longrightarrow> mass_ok (snd (pilot_rmCargoRaw p c q cl))"
  by (simp add: pilot_rmCargoRaw_def Let_def cargo_tweak_mass_ok split: option.splits)

text \<open>
  C3, at the failing input. The mass invariant holds after \<^verbatim>\<open>pilot_calcStats\<close> (so
  after equipping or removing an outfit) and the cargo functions keep it, as the lemmas
  above show. Firing a missile launcher does not: \<^verbatim>\<open>pilot_shootWeapon\<close> takes the mass
  of the missile off \<open>mass_outfit\<close> and calls \<^verbatim>\<open>pilot_updateMass\<close>, which recomputes
  the turn rate only, so the physics mass stays at 39 while hull mass plus cargo mass
  plus outfit mass is 38.
\<close>

theorem missile_fire_breaks_mass:
  "mass_ok missile_boat
   \<and> (\<exists>r p' g'. pilot_shootWeapon missile_boat 0 0 world0 = Some (r, p', g')
        \<and> events g' = [WeaponAdd ''Missile'']
        \<and> mass (solid p') = 39
        \<and> ship_mass (ship p') + mass_cargo p' + mass_outfit p' = 38
        \<and> \<not> mass_ok p')"
proof -
  have a: "mass_ok missile_boat" by (simp add: missile_boat_def calcStats_mass_ok)
  have h1: "pilot_shootWeapon missile_boat 0 0 world0 \<noteq> None" by code_simp
  have h2: "events (snd (snd (the (pilot_shootWeapon missile_boat 0 0 world0))))
              = [WeaponAdd ''Missile'']" by code_simp
  have h3: "mass (solid (fst (snd (the (pilot_shootWeapon missile_boat 0 0 world0))))) = 39"
    by code_simp
  have h4: "(\<lambda>p'. ship_mass (ship p') + mass_cargo p' + mass_outfit p')
              (fst (snd (the (pilot_shootWeapon missile_boat 0 0 world0)))) = 38"
    by code_simp
  from h1 obtain r p' g' where e: "pilot_shootWeapon missile_boat 0 0 world0 = Some (r, p', g')"
    by (metis option.exhaust prod_cases3)
  with h2 h3 h4 have "events g' = [WeaponAdd ''Missile''] \<and> mass (solid p') = 39
        \<and> ship_mass (ship p') + mass_cargo p' + mass_outfit p' = 38"
    by simp
  moreover from this have "\<not> mass_ok p'" by (simp add: mass_ok_def)
  ultimately show ?thesis using a e by blast
qed

section \<open>Properties of the update tick\<close>

lemma exp_neg1_bounds: "0.63 < 1 - exp (- 1 :: real)" "1 - exp (- 1 :: real) < 0.64"
proof -
  have lo: "(1 + 1/32 + (1/32)^2 / 2 :: real) \<le> exp (1/32)"
    using exp_lower_Taylor_quadratic [of "1/32 :: real"] by simp
  have hi: "exp (1/32 :: real) \<le> 1 + 1/32 + (1/32)^2"
    using exp_bound [of "1/32 :: real"] by simp
  have e: "exp (1::real) = exp (1/32) ^ 32"
    by (simp add: exp_of_nat_mult [symmetric, where 'a = real] flip: exp_of_nat_mult)
  have "(1 + 1/32 + (1/32)^2 / 2 :: real) ^ 32 \<le> exp (1/32) ^ 32"
    using lo by (intro power_mono) simp_all
  then have l1: "(271/100 :: real) < exp 1" unfolding e [symmetric]
    by (simp add: power_numeral_reduce del: power_numeral) 
  have "exp (1/32 :: real) ^ 32 \<le> (1 + 1/32 + (1/32)^2) ^ 32"
    using hi by (intro power_mono) simp_all
  then have h1: "exp (1::real) < 277/100" unfolding e [symmetric]
    by (simp add: power_numeral_reduce del: power_numeral)
  have i: "exp (- 1 :: real) = 1 / exp 1" by (simp add: exp_minus inverse_eq_divide)
  show "0.63 < 1 - exp (- 1 :: real)" unfolding i using l1 by (simp add: field_simps)
  show "1 - exp (- 1 :: real) < 0.64" unfolding i using h1 by (simp add: field_simps)
qed


lemma update_timers_frame:
  "energy (update_timers p dt) = energy p"
  "energy_max (update_timers p dt) = energy_max p"
  "energy_tau (update_timers p dt) = energy_tau p"
  "armour (update_timers p dt) = armour p"
  "flags (update_timers p dt) = flags p"
  by (simp_all add: update_timers_def Let_def)

lemma update_timers_isFlag: "pilot_isFlag (update_timers p dt) f = pilot_isFlag p f"
  by (simp add: pilot_isFlag_def update_timers_frame)

lemma update_death_alive:
  "\<not> pilot_isFlag p PILOT_DEAD \<Longrightarrow> 0 < armour p \<Longrightarrow> update_death p g = (p, g, False)"
  by (simp add: update_death_def)

lemma update_regen_energy: "energy (update_regen p dt) = energy_charge p dt"
proof -
  have r: "energy (pilot_rmFlag q f) = energy q" "energy_max (pilot_rmFlag q f) = energy_max q"
          "energy_tau (pilot_rmFlag q f) = energy_tau q" for q f
    by (simp_all add: pilot_rmFlag_def)
  show ?thesis
    by (simp add: update_regen_def energy_charge_def Let_def r min_def)
qed

lemma update_regen_afterburner:
  "pilot_isFlag (update_regen p dt) PILOT_AFTERBURNER
     = (pilot_isFlag p PILOT_AFTERBURNER \<and> \<not> energy p < 1)"
proof -
  have f: "pilot_isFlag (q\<lparr>armour := a\<rparr>) x = pilot_isFlag q x"
          "pilot_isFlag (q\<lparr>shield := a\<rparr>) x = pilot_isFlag q x"
          "pilot_isFlag (q\<lparr>energy := a\<rparr>) x = pilot_isFlag q x"
          "pilot_isFlag (q\<lparr>player_damage := a\<rparr>) x = pilot_isFlag q x" for q a x
    by (simp_all add: pilot_isFlag_def)
  show ?thesis
    by (auto simp: update_regen_def Let_def f isFlag_rmFlag_same)
qed

lemma flag_disjoint_ab:
  "PILOT_REFUELBOARDING AND PILOT_AFTERBURNER = 0" "PILOT_REFUELING AND PILOT_AFTERBURNER = 0"
  "PILOT_BOARDING AND PILOT_AFTERBURNER = 0"
  by (simp_all add: PILOT_REFUELBOARDING_def PILOT_REFUELING_def PILOT_BOARDING_def
        PILOT_AFTERBURNER_def)

lemma pilot_refuel_frame:
  "energy (fst (pilot_refuel p tgt dt)) = energy p"
  "pilot_isFlag (fst (pilot_refuel p tgt dt)) PILOT_AFTERBURNER = pilot_isFlag p PILOT_AFTERBURNER"
proof -
  have r: "energy (pilot_rmFlag q f) = energy q" for q f by (simp add: pilot_rmFlag_def)
  have f: "pilot_isFlag (q\<lparr>solid := a\<rparr>) x = pilot_isFlag q x"
          "pilot_isFlag (q\<lparr>fuel := b\<rparr>) x = pilot_isFlag q x"
          "pilot_isFlag (q\<lparr>ptimer := b\<rparr>) x = pilot_isFlag q x" for q a b x
    by (simp_all add: pilot_isFlag_def)
  show "energy (fst (pilot_refuel p tgt dt)) = energy p"
    by (simp add: pilot_refuel_def Let_def r split: option.splits)
  show "pilot_isFlag (fst (pilot_refuel p tgt dt)) PILOT_AFTERBURNER
          = pilot_isFlag p PILOT_AFTERBURNER"
    by (simp add: pilot_refuel_def Let_def f isFlag_rmFlag_other flag_disjoint_ab
          split: option.splits)
qed

lemma update_board_frame:
  assumes "board_frame env"
  shows "energy (update_board env p tgt) = energy p"
    and "pilot_isFlag (update_board env p tgt) PILOT_AFTERBURNER
           = pilot_isFlag p PILOT_AFTERBURNER"
proof -
  have r: "energy (pilot_rmFlag q f) = energy q" for q f by (simp add: pilot_rmFlag_def)
  have f: "pilot_isFlag (q\<lparr>solid := a\<rparr>) x = pilot_isFlag q x" for q a x
    by (simp add: pilot_isFlag_def)
  from assms have b: "energy (pilot_boardComplete env q) = energy q"
      "pilot_isFlag (pilot_boardComplete env q) PILOT_AFTERBURNER
         = pilot_isFlag q PILOT_AFTERBURNER" for q
    by (simp_all add: board_frame_def)
  show "energy (update_board env p tgt) = energy p"
    by (simp add: update_board_def Let_def r b split: option.splits)
  show "pilot_isFlag (update_board env p tgt) PILOT_AFTERBURNER
           = pilot_isFlag p PILOT_AFTERBURNER"
    by (simp add: update_board_def Let_def f b isFlag_rmFlag_other flag_disjoint_ab
          split: option.splits)
qed

lemma update_glow_frame:
  "energy (update_glow p dt) = energy p"
  "pilot_isFlag (update_glow p dt) f = pilot_isFlag p f"
  by (simp_all add: update_glow_def glow_decay_def Let_def pilot_isFlag_def)

lemma update_move_plain:
  "\<not> pilot_isFlag p PILOT_AFTERBURNER \<Longrightarrow>
     \<exists>p' g'. update_move env p dt g = Some (p', g') \<and> energy p' = energy p"
  by (simp add: update_move_def Let_def pilot_isFlag_def)

lemma calcStats_tau:
  "energy_tau (pilot_calcStats p)
     = energy_max (pilot_calcStats p) / energy_regen (pilot_calcStats p)"
  by (simp add: pilot_calcStats_def Let_def case_prod_beta pilot_updateMass_def)

lemma pilot_update_alive:
  assumes "\<not> pilot_isFlag p PILOT_DEAD" "0 < armour p" "\<not> pilot_isDisabled p"
  shows "pilot_update env p dt g
           = update_alive env (update_regen (update_timers p dt) dt) dt g"
proof -
  have d: "update_death (update_timers p dt) g = (update_timers p dt, g, False)"
    using assms by (simp add: update_death_alive update_timers_isFlag update_timers_frame)
  show ?thesis
    using assms(3)
    by (simp add: pilot_update_def Let_def d pilot_isDisabled_def update_timers_isFlag)
qed

text \<open>
  C6. For a pilot that is alive (not flagged dead, armour left) and not disabled,
  \<^verbatim>\<open>pilot_update\<close> with time step \<open>dt\<close> runs the regeneration block on the pilot and
  goes on from its result; that block leaves the energy at
  \<open>energy + (energy_max - energy) * (1 - exp (- dt / energy_tau))\<close>, clamped to
  \<open>energy_max\<close>. \<^verbatim>\<open>pilot_calcStats\<close> sets \<open>energy_tau\<close> to
  \<open>energy_max / energy_regen\<close>. So, from energy 0 and with \<open>dt = energy_tau\<close>, one
  update yields the energy \<open>energy_max * (1 - exp (- 1))\<close>, between 63 and 64 per cent
  of the maximum (the afterburner is broken off below 1 unit of energy and drains
  nothing; \<^verbatim>\<open>pilot_boardComplete\<close> is taken not to touch the energy).
\<close>

theorem energy_charge_update:
  "(\<not> pilot_isFlag p PILOT_DEAD \<and> 0 < armour p \<and> \<not> pilot_isDisabled p \<longrightarrow>
      pilot_update env p dt g = update_alive env (update_regen (update_timers p dt) dt) dt g
      \<and> energy (update_regen (update_timers p dt) dt) = energy_charge p dt
      \<and> energy_charge p dt =
          min (energy_max p)
            (energy p + (energy_max p - energy p) * (1 - exp (- dt / energy_tau p))))
   \<and> energy_tau (pilot_calcStats p)
       = energy_max (pilot_calcStats p) / energy_regen (pilot_calcStats p)
   \<and> (\<not> pilot_isFlag p PILOT_DEAD \<and> 0 < armour p \<and> \<not> pilot_isDisabled p
       \<and> board_frame env \<and> energy p = 0 \<and> 0 < energy_max p \<and> 0 < energy_regen p
       \<and> energy_tau p = energy_max p / energy_regen p \<and> dt = energy_tau p \<longrightarrow>
        (\<exists>p' tgt g'. pilot_update env p dt g = Some (p', tgt, g')
           \<and> energy p' = energy_max p * (1 - exp (- 1))
           \<and> 0.63 * energy_max p < energy p' \<and> energy p' < 0.64 * energy_max p))"
proof (intro conjI impI)
  assume a: "\<not> pilot_isFlag p PILOT_DEAD \<and> 0 < armour p \<and> \<not> pilot_isDisabled p"
  then show "pilot_update env p dt g
                = update_alive env (update_regen (update_timers p dt) dt) dt g"
    by (simp add: pilot_update_alive)
  show "energy (update_regen (update_timers p dt) dt) = energy_charge p dt"
    by (simp add: update_regen_energy energy_charge_def update_timers_frame)
  show "energy_charge p dt =
          min (energy_max p)
            (energy p + (energy_max p - energy p) * (1 - exp (- dt / energy_tau p)))"
    by (simp add: energy_charge_def)
next
  show "energy_tau (pilot_calcStats p)
       = energy_max (pilot_calcStats p) / energy_regen (pilot_calcStats p)"
    by (rule calcStats_tau)
next
  assume a: "\<not> pilot_isFlag p PILOT_DEAD \<and> 0 < armour p \<and> \<not> pilot_isDisabled p
       \<and> board_frame env \<and> energy p = 0 \<and> 0 < energy_max p \<and> 0 < energy_regen p
       \<and> energy_tau p = energy_max p / energy_regen p \<and> dt = energy_tau p"
  let ?p2 = "update_regen (update_timers p dt) dt"
  have u: "pilot_update env p dt g = update_alive env ?p2 dt g"
    using a by (intro pilot_update_alive) simp_all
  from a have tau: "0 < energy_tau p" by simp
  with a have one: "dt / energy_tau p = 1" by simp
  have ex: "0 < exp (- 1 :: real)" by simp
  have ch: "energy_charge p dt = energy_max p * (1 - exp (- 1))"
  proof -
    have "energy_max p * (1 - exp (- 1)) \<le> energy_max p"
      using a ex by (simp add: mult_le_cancel_left1)
    then show ?thesis using a one by (simp add: energy_charge_def min_def)
  qed
  have "energy ?p2 = energy_charge p dt"
    by (simp add: update_regen_energy energy_charge_def update_timers_frame)
  then have e2: "energy ?p2 = energy_max p * (1 - exp (- 1))"
    by (simp only: ch)
  have ab: "\<not> pilot_isFlag ?p2 PILOT_AFTERBURNER"
    using a by (simp add: update_regen_afterburner update_timers_frame)
  let ?rf = "if pilot_isFlag ?p2 PILOT_REFUELBOARDING
             then pilot_refuel ?p2 (pilot_get_target env) dt else (?p2, pilot_get_target env)"
  let ?p5 = "update_glow (update_board env (fst ?rf) (snd ?rf)) dt"
  from a have bf: "board_frame env" by simp
  have e5: "energy ?p5 = energy ?p2"
    by (simp add: update_glow_frame update_board_frame [OF bf] pilot_refuel_frame)
  have ab5: "\<not> pilot_isFlag ?p5 PILOT_AFTERBURNER"
    using ab by (simp add: update_glow_frame update_board_frame [OF bf] pilot_refuel_frame)
  from update_move_plain [OF ab5, of env dt g]
  obtain p' g' where m: "update_move env ?p5 dt g = Some (p', g')" and ep: "energy p' = energy ?p5"
    by blast
  have "pilot_update env p dt g = Some (p', snd ?rf, g')"
    unfolding u by (simp add: update_alive_def Let_def case_prod_beta m)
  moreover have en: "energy p' = energy_max p * (1 - exp (- 1))"
    using ep e5 e2 by simp
  moreover have "0.63 * energy_max p < energy p'" "energy p' < 0.64 * energy_max p"
    unfolding en using a exp_neg1_bounds by (simp_all add: mult.commute)
  ultimately show "\<exists>p' tgt g'. pilot_update env p dt g = Some (p', tgt, g')
           \<and> energy p' = energy_max p * (1 - exp (- 1))
           \<and> 0.63 * energy_max p < energy p' \<and> energy p' < 0.64 * energy_max p"
    by blast
qed

theorem energy_charge_update_witness:
  "\<not> pilot_isFlag drained0 PILOT_DEAD \<and> 0 < armour drained0 \<and> \<not> pilot_isDisabled drained0
   \<and> board_frame uenv0 \<and> energy drained0 = 0 \<and> 0 < energy_max drained0
   \<and> 0 < energy_regen drained0
   \<and> energy_tau drained0 = energy_max drained0 / energy_regen drained0
   \<and> (\<exists>p' tgt g'. pilot_update uenv0 drained0 20 world0 = Some (p', tgt, g')
         \<and> energy p' = 200 * (1 - exp (- 1)))"
proof -
  have v: "flags drained0 = 0" "armour drained0 = 100" "energy drained0 = 0"
    "energy_max drained0 = 200" "energy_regen drained0 = 10" "energy_tau drained0 = 20"
    by (simp_all add: drained0_def pilot0_def)
  have h: "\<not> pilot_isFlag drained0 PILOT_DEAD" "0 < armour drained0"
      "\<not> pilot_isDisabled drained0" "energy drained0 = 0" "0 < energy_max drained0"
      "0 < energy_regen drained0"
      "energy_tau drained0 = energy_max drained0 / energy_regen drained0"
      "(20::real) = energy_tau drained0"
    by (simp_all add: pilot_isFlag_def pilot_isDisabled_def v)
  have b: "board_frame uenv0"
    by (simp add: board_frame_def uenv0_def isFlag_rmFlag_other flag_disjoint_ab)
       (simp add: pilot_rmFlag_def)
  have ante: "\<not> pilot_isFlag drained0 PILOT_DEAD \<and> 0 < armour drained0
       \<and> \<not> pilot_isDisabled drained0
       \<and> board_frame uenv0 \<and> energy drained0 = 0 \<and> 0 < energy_max drained0
       \<and> 0 < energy_regen drained0
       \<and> energy_tau drained0 = energy_max drained0 / energy_regen drained0
       \<and> (20::real) = energy_tau drained0"
    using h b by (intro conjI)
  from energy_charge_update [of drained0 uenv0 20 world0, THEN conjunct2, THEN conjunct2,
         THEN mp, OF ante]
  obtain p' tgt g' where r: "pilot_update uenv0 drained0 20 world0 = Some (p', tgt, g')"
      and e: "energy p' = energy_max drained0 * (1 - exp (- 1))"
    by blast
  from e have "energy p' = 200 * (1 - exp (- 1))" by (simp only: v)
  with r have "\<exists>p' tgt g'. pilot_update uenv0 drained0 20 world0 = Some (p', tgt, g')
         \<and> energy p' = 200 * (1 - exp (- 1))"
    by blast
  with h b show ?thesis by blast
qed

section \<open>Properties of the hyperspace state machine\<close>

lemma pilot_face_frame:
  "flags (fst (pilot_face env p d)) = flags p"
  "snd (pilot_face env p d) = angle_diff env (dir (solid p)) d"
  by (simp_all add: pilot_face_def Let_def pilot_setTurn_def)

lemma setThrust_frame:
  "flags (pilot_setThrust p x) = flags p"
  "dir (solid (pilot_setThrust p x)) = dir (solid p)"
  "pos (solid (pilot_setThrust p x)) = pos (solid p)"
  "flags (pilot_setTurn p x) = flags p"
  by (simp_all add: pilot_setThrust_def pilot_setTurn_def)

lemma hyperspace_flags:
  "flags (fst (pilot_hyperspace env p dt g)) =
     (if pilot_isFlag p PILOT_HYPERSPACE then
        (if ptimer p < 0 \<and> pid p \<noteq> PLAYER_ID then flags p OR PILOT_DELETE else flags p)
      else if pilot_isFlag p PILOT_HYP_BEGIN then
        (if ptimer p < 0 then flags p OR PILOT_HYPERSPACE else flags p)
      else if VMOD env (vel (solid p)) > MIN_VEL_ERR env then flags p
      else if \<bar>hyp_facing env (solid p)\<bar> < MAX_DIR_ERR env then flags p OR PILOT_HYP_BEGIN
      else flags p)"
  by (simp add: pilot_hyperspace_def Let_def case_prod_beta pilot_face_frame setThrust_frame
        pilot_setFlag_def hyp_facing_def player_faceHyperspace_def)

lemma flag_disjoint_hyp:
  "PILOT_HYP_BEGIN AND PILOT_HYPERSPACE = 0" "PILOT_HYPERSPACE AND PILOT_HYP_BEGIN = 0"
  "PILOT_HYP_BEGIN AND PILOT_HYP_PREP = 0" "PILOT_HYPERSPACE AND PILOT_HYP_PREP = 0"
  "PILOT_HYP_BEGIN \<noteq> 0" "PILOT_HYPERSPACE \<noteq> 0"
  by (simp_all add: PILOT_HYP_BEGIN_def PILOT_HYPERSPACE_def PILOT_HYP_PREP_def)

lemma phase_Preparing:
  "phase_of p = Preparing \<longleftrightarrow>
     \<not> pilot_isFlag p PILOT_HYPERSPACE \<and> \<not> pilot_isFlag p PILOT_HYP_BEGIN
     \<and> pilot_isFlag p PILOT_HYP_PREP"
  by (simp add: phase_of_def)

lemma phase_Warming:
  "phase_of p = Warming \<longleftrightarrow>
     \<not> pilot_isFlag p PILOT_HYPERSPACE \<and> pilot_isFlag p PILOT_HYP_BEGIN"
  by (simp add: phase_of_def)

lemma hyperspace_from_preparing:
  assumes "phase_of p = Preparing"
  shows "phase_of (fst (pilot_hyperspace env p dt g)) =
           (if VMOD env (vel (solid p)) \<le> MIN_VEL_ERR env
               \<and> \<bar>hyp_facing env (solid p)\<bar> < MAX_DIR_ERR env
            then Warming else Preparing)"
proof -
  from assms have f: "flags p AND PILOT_HYPERSPACE = 0" "flags p AND PILOT_HYP_BEGIN = 0"
      "flags p AND PILOT_HYP_PREP \<noteq> 0"
    by (simp_all add: phase_Preparing pilot_isFlag_def)
  show ?thesis
    using f
    by (simp add: phase_of_def pilot_isFlag_def hyperspace_flags flag_or_same flag_or_other
          flag_disjoint_hyp not_less)
qed

lemma hyperspace_from_warming:
  assumes "phase_of p = Warming"
  shows "phase_of (fst (pilot_hyperspace env p dt g)) =
           (if ptimer p < 0 then InTransit else Warming)"
proof -
  from assms have f: "flags p AND PILOT_HYPERSPACE = 0" "flags p AND PILOT_HYP_BEGIN \<noteq> 0"
    by (simp_all add: phase_Warming pilot_isFlag_def)
  show ?thesis
    using f
    by (simp add: phase_of_def pilot_isFlag_def hyperspace_flags flag_or_same flag_or_other
          flag_disjoint_hyp)
qed

lemma phase_solid [simp]: "phase_of (p\<lparr>solid := s\<rparr>) = phase_of p"
  by (simp add: phase_of_def pilot_isFlag_def)

lemma hyperspace_run_misaligned:
  assumes "phase_of p = Preparing"
      and "list_all (\<lambda>ds. \<not> \<bar>hyp_facing env (snd ds)\<bar> < MAX_DIR_ERR env) steps"
  shows "phase_of (fst (hyperspace_run env steps p g)) = Preparing"
  using assms
proof (induction steps arbitrary: p g)
  case Nil
  then show ?case by simp
next
  case (Cons ds rest)
  obtain dt s where ds: "ds = (dt, s)" by (cases ds)
  let ?r = "pilot_hyperspace env (p\<lparr>solid := s\<rparr>) dt g"
  have pr: "phase_of (p\<lparr>solid := s\<rparr>) = Preparing" using Cons.prems(1) by simp
  have na: "\<not> \<bar>hyp_facing env s\<bar> < MAX_DIR_ERR env" using Cons.prems(2) ds by simp
  have "phase_of (fst ?r) = Preparing"
    using hyperspace_from_preparing [OF pr, of env dt g] na by simp
  moreover have "list_all (\<lambda>ds. \<not> \<bar>hyp_facing env (snd ds)\<bar> < MAX_DIR_ERR env) rest"
    using Cons.prems(2) by simp
  ultimately have "phase_of (fst (hyperspace_run env rest (fst ?r) (snd ?r))) = Preparing"
    by (rule Cons.IH)
  then show ?case by (simp add: ds case_prod_beta)
qed

lemma prep0_phase: "phase_of prep0 = Preparing"
  by (simp add: phase_of_def pilot_isFlag_def prep0_def PILOT_HYP_PREP_def PILOT_HYP_BEGIN_def
        PILOT_HYPERSPACE_def)

lemma henv0_facing: "hyp_facing henv0 solid0 = 0" "hyp_facing henv0 (solid0\<lparr>dir := 1\<rparr>) = - 1"
  "0 < MAX_DIR_ERR henv0" "MAX_DIR_ERR henv0 < 1"
proof -
  show "hyp_facing henv0 solid0 = 0" "hyp_facing henv0 (solid0\<lparr>dir := 1\<rparr>) = - 1"
    by (simp_all add: hyp_facing_def henv0_def solid0_def)
  show "0 < MAX_DIR_ERR henv0" by (simp add: henv0_def)
  have "pi < 4" using pi_less_4 .
  then show "MAX_DIR_ERR henv0 < 1" by (simp add: henv0_def)
qed

text \<open>
  C7, as amended. A hyperspace step takes a pilot in the preparing phase to the warming
  phase exactly when its speed is at or below the minimum velocity threshold (not above
  it) and its facing is within the direction tolerance, and leaves it preparing
  otherwise; so a pilot whose facing is out of tolerance at every tick is still
  preparing after any number of steps, whatever the physics does to it in between. A
  step takes a pilot in the warming phase to the transit phase exactly when the warm-up
  timer has run out (is below 0), and leaves it warming otherwise.
\<close>

theorem hyperspace_advance:
  "(phase_of p = Preparing \<longrightarrow>
      phase_of (fst (pilot_hyperspace env p dt g)) =
        (if VMOD env (vel (solid p)) \<le> MIN_VEL_ERR env
            \<and> \<bar>hyp_facing env (solid p)\<bar> < MAX_DIR_ERR env
         then Warming else Preparing))
   \<and> (phase_of p = Preparing
       \<and> list_all (\<lambda>ds. \<not> \<bar>hyp_facing env (snd ds)\<bar> < MAX_DIR_ERR env) steps \<longrightarrow>
         phase_of (fst (hyperspace_run env steps p g)) = Preparing)
   \<and> (phase_of p = Warming \<longrightarrow>
         phase_of (fst (pilot_hyperspace env p dt g)) =
           (if ptimer p < 0 then InTransit else Warming))"
  using hyperspace_from_preparing hyperspace_run_misaligned hyperspace_from_warming
  by blast

theorem hyperspace_advance_witness:
  "phase_of prep0 = Preparing
   \<and> phase_of (fst (pilot_hyperspace henv0 prep0 (1 / 10) world0)) = Warming
   \<and> list_all (\<lambda>ds. \<not> \<bar>hyp_facing henv0 (snd ds)\<bar> < MAX_DIR_ERR henv0)
        [(1 / 10 :: real, solid0\<lparr>dir := 1\<rparr>), (1 / 10, solid0\<lparr>dir := 1\<rparr>)]
   \<and> phase_of (fst (hyperspace_run henv0
        [(1 / 10, solid0\<lparr>dir := 1\<rparr>), (1 / 10, solid0\<lparr>dir := 1\<rparr>)] prep0 world0)) = Preparing
   \<and> phase_of warm0 = Warming
   \<and> phase_of (fst (pilot_hyperspace henv0 warm0 (1 / 10) world0)) = InTransit"
proof -
  let ?steps = "[(1 / 10, solid0\<lparr>dir := 1\<rparr>), (1 / 10 :: real, solid0\<lparr>dir := 1\<rparr>)]"
  have s: "solid prep0 = solid0" by (simp add: prep0_def pilot0_def)
  have v: "VMOD henv0 (vel solid0) \<le> MIN_VEL_ERR henv0" by (simp add: henv0_def solid0_def)
  have la: "list_all (\<lambda>ds. \<not> \<bar>hyp_facing henv0 (snd ds)\<bar> < MAX_DIR_ERR henv0) ?steps"
    using henv0_facing by simp
  have w: "phase_of warm0 = Warming"
    by (simp add: phase_of_def pilot_isFlag_def warm0_def PILOT_HYP_PREP_def PILOT_HYP_BEGIN_def
          PILOT_HYPERSPACE_def)
  have pt: "ptimer warm0 < 0" by (simp add: warm0_def)
  note t = hyperspace_advance [of prep0 henv0 "1 / 10" world0 ?steps]
  note t' = hyperspace_advance [of warm0 henv0 "1 / 10" world0 "[]"]
  have a: "phase_of (fst (pilot_hyperspace henv0 prep0 (1 / 10) world0)) = Warming"
    using t prep0_phase v henv0_facing by (simp add: s)
  have b: "phase_of (fst (hyperspace_run henv0 ?steps prep0 world0)) = Preparing"
    using t prep0_phase la by blast
  have c: "phase_of (fst (pilot_hyperspace henv0 warm0 (1 / 10) world0)) = InTransit"
    using t' w pt by simp
  from prep0_phase a la b w c show ?thesis by blast
qed

theorem hyperspace_threshold_counterexample:
  "phase_of edge0 = Preparing
   \<and> \<not> VMOD henv0 (vel (solid edge0)) < MIN_VEL_ERR henv0
   \<and> phase_of (fst (pilot_hyperspace henv0 edge0 (1 / 10) world0)) = Warming"
proof -
  have p: "phase_of edge0 = Preparing" using prep0_phase by (simp add: edge0_def)
  have s: "solid edge0 = solid0\<lparr>vel := \<lparr>vx = 5, vy = 0\<rparr>\<rparr>" by (simp add: edge0_def)
  have v: "VMOD henv0 (vel (solid edge0)) = 5" "MIN_VEL_ERR henv0 = 5"
    by (simp_all add: s henv0_def)
  have f: "hyp_facing henv0 (solid edge0) = 0"
    by (simp add: s hyp_facing_def henv0_def solid0_def)
  have "phase_of (fst (pilot_hyperspace henv0 edge0 (1 / 10) world0)) = Warming"
    using hyperspace_from_preparing [OF p, of henv0 "1 / 10" world0] henv0_facing(3)
    by (simp add: v f)
  with p v show ?thesis by simp
qed

section \<open>Properties of the entity registry\<close>

subsection \<open>The binary search and the registry operations\<close>

lemma stack_ids_live:
  "list_all (\<lambda>a. heap r a \<noteq> None) (pilot_stack r) \<Longrightarrow>
     map (heap r) (pilot_stack r) = map Some (stack_ids r)"
  by (auto simp: stack_ids_def list_all_iff)

lemma getStackPos_loop_correct:
  assumes "sorted_wrt (<) xs" "0 \<le> l" "h < int (length xs)"
      and "\<forall>k. k < nat l \<and> k < length xs \<longrightarrow> xs ! k < i"
      and "\<forall>k. nat (h + 1) \<le> k \<and> k < length xs \<longrightarrow> i < xs ! k"
  shows "\<exists>m. getStackPos_loop (map Some xs) i l h = Some m
            \<and> (if m = - 1 then i \<notin> set xs
                else 0 \<le> m \<and> m < int (length xs) \<and> xs ! nat m = i)"
  using assms
proof (induction "map Some xs" i l h rule: getStackPos_loop.induct)
  case (1 i l h)
  show ?case
  proof (cases "l \<le> h")
    case False
    have "i \<notin> set xs"
    proof
      assume "i \<in> set xs"
      then obtain k where k: "k < length xs" "xs ! k = i" by (auto simp: in_set_conv_nth)
      show False
      proof (cases "k < nat l")
        case True
        with k "1.prems"(4) show False by auto
      next
        case f: False
        with False "1.prems"(2) have "nat (h + 1) \<le> k" by linarith
        with k "1.prems"(5) show False by auto
      qed
    qed
    moreover have "getStackPos_loop (map Some xs) i l h = Some (- 1)"
      using False by (subst getStackPos_loop.simps) simp
    ultimately show ?thesis by simp
  next
    case True
    define m where "m = (l + h) div 2"
    have mb: "l \<le> m" "m \<le> h" using True by (simp_all add: m_def)
    have m0: "0 \<le> m" "m < int (length xs)" using mb "1.prems"(2,3) by linarith+
    then have nm: "nat m < length xs" by linarith
    have m0c: "0 \<le> m \<and> m < int (length (map Some xs))" using m0 by simp
    have rd: "map Some xs ! nat m = Some (xs ! nat m)" using nm by simp
    have st: "\<And>a b. a < b \<Longrightarrow> b < length xs \<Longrightarrow> xs ! a < xs ! b"
      using "1.prems"(1) by (simp add: sorted_wrt_iff_nth_less)
    show ?thesis
    proof (cases "xs ! nat m > i")
      case gt: True
      have p5: "\<forall>k. nat (m - 1 + 1) \<le> k \<and> k < length xs \<longrightarrow> i < xs ! k"
      proof (intro allI impI)
        fix k assume k: "nat (m - 1 + 1) \<le> k \<and> k < length xs"
        then have "nat m \<le> k" by simp
        then have "xs ! nat m \<le> xs ! k"
          using st [of "nat m" k] k by (cases "nat m = k") auto
        with gt show "i < xs ! k" by simp
      qed
      have "\<exists>ma. getStackPos_loop (map Some xs) i l (m - 1) = Some ma
            \<and> (if ma = - 1 then i \<notin> set xs
                else 0 \<le> ma \<and> ma < int (length xs) \<and> xs ! nat ma = i)"
        using "1.hyps"(1) [OF True m_def m0c rd gt "1.prems"(1,2) _ "1.prems"(4) p5]
          m0 by simp
      moreover have "getStackPos_loop (map Some xs) i l h
                       = getStackPos_loop (map Some xs) i l (m - 1)"
        using True m0 rd gt
        by (subst getStackPos_loop.simps) (simp add: m_def [symmetric] Let_def)
      ultimately show ?thesis by simp
    next
      case ngt: False
      show ?thesis
      proof (cases "xs ! nat m < i")
        case lt: True
        have p4: "\<forall>k. k < nat (m + 1) \<and> k < length xs \<longrightarrow> xs ! k < i"
        proof (intro allI impI)
          fix k assume k: "k < nat (m + 1) \<and> k < length xs"
          then have "k \<le> nat m" using m0 by linarith
          then have "xs ! k \<le> xs ! nat m"
            using st [of k "nat m"] nm by (cases "k = nat m") auto
          with lt show "xs ! k < i" by simp
        qed
        have "\<exists>ma. getStackPos_loop (map Some xs) i (m + 1) h = Some ma
            \<and> (if ma = - 1 then i \<notin> set xs
                else 0 \<le> ma \<and> ma < int (length xs) \<and> xs ! nat ma = i)"
          using "1.hyps"(2) [OF True m_def m0c rd ngt lt "1.prems"(1) _ "1.prems"(3) p4
                  "1.prems"(5)] m0 by simp
        moreover have "getStackPos_loop (map Some xs) i l h
                       = getStackPos_loop (map Some xs) i (m + 1) h"
          using True m0 rd ngt lt
          by (subst getStackPos_loop.simps) (simp add: m_def [symmetric] Let_def)
        ultimately show ?thesis by simp
      next
        case nlt: False
        with ngt have eq: "xs ! nat m = i" by simp
        have "getStackPos_loop (map Some xs) i l h = Some m"
          using True m0 rd eq
          by (subst getStackPos_loop.simps) (simp add: m_def [symmetric] Let_def)
        moreover have "m \<noteq> - 1" using m0 by simp
        ultimately show ?thesis using m0 eq by simp
      qed
    qed
  qed
qed

lemma getStackPos_correct:
  assumes "registry_inv r"
  shows "\<exists>m. pilot_getStackPos i r = Some m
            \<and> (if m = - 1 then i \<notin> set (stack_ids r)
                else 0 \<le> m \<and> m < int (length (pilot_stack r)) \<and> stack_ids r ! nat m = i)"
proof -
  from assms have live: "list_all (\<lambda>a. heap r a \<noteq> None) (pilot_stack r)"
    and so: "sorted_wrt (<) (stack_ids r)"
    by (simp_all add: registry_inv_def)
  have len: "length (stack_ids r) = length (pilot_stack r)" by (simp add: stack_ids_def)
  have "\<exists>m. getStackPos_loop (map Some (stack_ids r)) i 0 (int (length (stack_ids r)) - 1)
               = Some m
            \<and> (if m = - 1 then i \<notin> set (stack_ids r)
                else 0 \<le> m \<and> m < int (length (stack_ids r)) \<and> stack_ids r ! nat m = i)"
    by (rule getStackPos_loop_correct [OF so]) auto
  then obtain m where
      m: "getStackPos_loop (map Some (stack_ids r)) i 0 (int (length (stack_ids r)) - 1) = Some m"
         "if m = - 1 then i \<notin> set (stack_ids r)
          else 0 \<le> m \<and> m < int (length (stack_ids r)) \<and> stack_ids r ! nat m = i"
    by blast
  have "pilot_getStackPos i r = Some m"
    using m(1) by (simp add: pilot_getStackPos_def stack_ids_live [OF live] len)
  with m(2) show ?thesis by (simp only: len) blast
qed


lemma word_succ_gt:
  fixes p :: "32 word"
  assumes "p + 1 \<noteq> 0" "x \<le> p"
  shows "x < p + 1"
proof -
  have "unat (1 + p) = Suc (unat p)" using assms(1) by (intro unatSuc) (simp add: add.commute)
  then have "unat (p + 1) = Suc (unat p)" by (simp add: add.commute)
  moreover have "unat x \<le> unat p" using assms(2) by (simp add: word_le_nat_alt)
  ultimately show ?thesis by (simp add: word_less_nat_alt)
qed

lemma registry_init_inv: "registry_inv registry_init"
  by (simp add: registry_inv_def registry_init_def stack_ids_def)

lemma fresh_notin:
  assumes "registry_inv r" "heap r a = None"
  shows "a \<notin> set (pilot_stack r)"
  using assms by (auto simp: registry_inv_def list_all_iff)

lemma stack_ids_upd_fresh:
  "a \<notin> set st \<Longrightarrow>
     map (\<lambda>b. case (hp(a := v)) b of Some i \<Rightarrow> i | None \<Rightarrow> 0) st
       = map (\<lambda>b. case hp b of Some i \<Rightarrow> i | None \<Rightarrow> (0::32 word)) st"
  by (induction st) auto

lemma create_npc:
  assumes inv: "registry_inv r" and fr: "heap r a = None"
      and np: "fl AND PILOT_PLAYER = 0" and nw: "pilot_id r + 1 \<noteq> 0"
  shows "registry_inv (snd (pilot_create (Some a) fl r))"
    and "stack_ids (snd (pilot_create (Some a) fl r)) = stack_ids r @ [pilot_id r + 1]"
    and "fst (pilot_create (Some a) fl r) = pilot_id r + 1"
    and "list_all (\<lambda>i. i < pilot_id r + 1) (stack_ids r)"
proof -
  let ?r' = "snd (pilot_create (Some a) fl r)"
  have na: "a \<notin> set (pilot_stack r)" using fresh_notin [OF inv fr] .
  have st: "pilot_stack ?r' = pilot_stack r @ [a]"
    and hp: "heap ?r' = (heap r)(a := Some (pilot_id r + 1))"
    and pi: "pilot_id ?r' = pilot_id r + 1"
    and pl: "player ?r' = player r"
    using np by (simp_all add: pilot_create_def Let_def)
  show ids: "stack_ids ?r' = stack_ids r @ [pilot_id r + 1]"
    using na by (auto simp: stack_ids_def st hp)
  from inv have le: "list_all (\<lambda>i. i \<le> pilot_id r) (stack_ids r)"
    and so: "sorted_wrt (<) (stack_ids r)" and p1: "PLAYER_ID \<le> pilot_id r"
    and live: "list_all (\<lambda>a. heap r a \<noteq> None) (pilot_stack r)"
    and pin: "case player r of None \<Rightarrow> True | Some b \<Rightarrow> b \<in> set (pilot_stack r)"
    by (simp_all add: registry_inv_def)
  show lt: "list_all (\<lambda>i. i < pilot_id r + 1) (stack_ids r)"
    using le word_succ_gt [OF nw] by (auto simp: list_all_iff)
  have "sorted_wrt (<) (stack_ids r @ [pilot_id r + 1])"
    using so lt by (auto simp: sorted_wrt_append list_all_iff)
  moreover have "list_all (\<lambda>i. i \<le> pilot_id r + 1) (stack_ids r @ [pilot_id r + 1])"
    using lt by (auto simp: list_all_iff)
  moreover have "PLAYER_ID \<le> pilot_id r + 1"
    using word_succ_gt [OF nw p1] by simp
  moreover have "list_all (\<lambda>b. ((heap r)(a := Some (pilot_id r + 1))) b \<noteq> None)
                   (pilot_stack r @ [a])"
    using live by (auto simp: list_all_iff)
  moreover have "case player r of None \<Rightarrow> True | Some b \<Rightarrow> b \<in> set (pilot_stack r @ [a])"
    using pin by (auto split: option.splits)
  ultimately show "registry_inv ?r'"
    unfolding registry_inv_def ids pi pl st hp by blast
  show "fst (pilot_create (Some a) fl r) = pilot_id r + 1"
    using np by (simp add: pilot_create_def Let_def)
qed

lemma create_player:
  assumes inv: "registry_inv r" and fr: "heap r a = None"
      and pf: "fl AND PILOT_PLAYER \<noteq> 0" and em: "pilot_stack r = []"
  shows "registry_inv (snd (pilot_create (Some a) fl r))"
    and "stack_ids (snd (pilot_create (Some a) fl r)) = [PLAYER_ID]"
proof -
  let ?r' = "snd (pilot_create (Some a) fl r)"
  from inv em have pn: "player r = None" and p1: "PLAYER_ID \<le> pilot_id r"
    by (auto simp: registry_inv_def split: option.splits)
  have st: "pilot_stack ?r' = [a]" and hp: "heap ?r' = (heap r)(a := Some PLAYER_ID)"
    and pi: "pilot_id ?r' = pilot_id r"
    and pl: "player ?r' = None \<or> player ?r' = Some a"
    using pf em pn by (simp_all add: pilot_create_def Let_def)
  show ids: "stack_ids ?r' = [PLAYER_ID]" by (simp add: stack_ids_def st hp)
  show "registry_inv ?r'"
    using pl p1 by (auto simp: registry_inv_def ids pi st hp)
qed

lemma stack_find_first:
  "a \<in> set st \<Longrightarrow> stack_find a st k - k < length st \<and> k \<le> stack_find a st k
     \<and> st ! (stack_find a st k - k) = a"
proof (induction st arbitrary: k)
  case Nil
  then show ?case by simp
next
  case (Cons b bs)
  show ?case
  proof (cases "b = a")
    case True
    then show ?thesis by simp
  next
    case False
    with Cons.prems have "a \<in> set bs" by simp
    from Cons.IH [OF this, of "Suc k"]
    show ?thesis using False by (auto simp: Suc_diff_le)
  qed
qed

lemma sorted_ids_distinct:
  assumes "registry_inv r"
  shows "distinct (pilot_stack r)"
proof -
  from assms have "sorted_wrt (<) (stack_ids r)" by (simp add: registry_inv_def)
  then have "distinct (stack_ids r)" by (simp add: strict_sorted_iff)
  then show ?thesis by (simp add: stack_ids_def distinct_map)
qed

lemma destroy_ok:
  assumes inv: "registry_inv r" and mem: "a \<in> set (pilot_stack r)"
  shows "\<exists>r' i. pilot_destroy a r = Some r' \<and> registry_inv r'
           \<and> i < length (pilot_stack r) \<and> pilot_stack r ! i = a
           \<and> pilot_stack r' = take i (pilot_stack r) @ drop (Suc i) (pilot_stack r)
           \<and> stack_ids r' = take i (stack_ids r) @ drop (Suc i) (stack_ids r)"
proof -
  define i where "i = stack_find a (pilot_stack r) 0"
  let ?st = "pilot_stack r"
  let ?st' = "take i ?st @ drop (Suc i) ?st"
  from stack_find_first [OF mem, of 0]
  have il: "i < length ?st" and ia: "?st ! i = a" by (simp_all add: i_def)
  define r' where "r' = (pilot_free a r)\<lparr>pilot_stack := ?st'\<rparr>"
  have d: "pilot_destroy a r = Some r'"
    using il by (simp add: pilot_destroy_def Let_def i_def [symmetric] r'_def pilot_free_def)
  have dist: "distinct ?st" using sorted_ids_distinct [OF inv] .
  have na: "a \<notin> set ?st'"
  proof -
    have "?st = take i ?st @ a # drop (Suc i) ?st"
      using il ia by (metis id_take_nth_drop)
    with dist have "distinct (take i ?st @ a # drop (Suc i) ?st)" by simp
    then show ?thesis by auto
  qed
  have sub: "set ?st' \<subseteq> set ?st"
    by (auto dest: in_set_takeD in_set_dropD)
  have hp: "heap r' = (heap r)(a := None)" and st: "pilot_stack r' = ?st'"
    and pi: "pilot_id r' = pilot_id r"
    and pl: "player r' = (if player r = Some a then None else player r)"
    by (simp_all add: r'_def pilot_free_def Let_def)
  have ids: "stack_ids r' = take i (stack_ids r) @ drop (Suc i) (stack_ids r)"
  proof -
    have "stack_ids r' = map (\<lambda>b. case heap r b of Some i \<Rightarrow> i | None \<Rightarrow> 0) ?st'"
      unfolding stack_ids_def st hp by (rule stack_ids_upd_fresh [OF na])
    then show ?thesis by (simp add: stack_ids_def take_map drop_map)
  qed
  from inv have le: "list_all (\<lambda>i. i \<le> pilot_id r) (stack_ids r)"
    and so: "sorted_wrt (<) (stack_ids r)" and p1: "PLAYER_ID \<le> pilot_id r"
    and live: "list_all (\<lambda>a. heap r a \<noteq> None) (pilot_stack r)"
    and pin: "case player r of None \<Rightarrow> True | Some b \<Rightarrow> b \<in> set (pilot_stack r)"
    by (simp_all add: registry_inv_def)
  have so': "sorted_wrt (<) (take i (stack_ids r) @ drop (Suc i) (stack_ids r))"
  proof -
    have "sorted_wrt (<) (take i (stack_ids r) @ drop i (stack_ids r))" using so by simp
    from this [unfolded sorted_wrt_append]
    have a: "sorted_wrt (<) (take i (stack_ids r))"
        "\<forall>x\<in>set (take i (stack_ids r)). \<forall>y\<in>set (drop i (stack_ids r)). x < y"
      by blast+
    have s: "set (drop (Suc i) (stack_ids r)) \<subseteq> set (drop i (stack_ids r))"
      by (simp add: set_drop_subset_set_drop)
    have "sorted_wrt (<) (drop (Suc i) (stack_ids r))"
      using so by (rule sorted_wrt_drop)
    with a s show ?thesis unfolding sorted_wrt_append by blast
  qed
  have le': "list_all (\<lambda>i. i \<le> pilot_id r) (take i (stack_ids r) @ drop (Suc i) (stack_ids r))"
    using le by (auto simp: list_all_iff dest: in_set_takeD in_set_dropD)
  have live': "list_all (\<lambda>b. ((heap r)(a := None)) b \<noteq> None) ?st'"
    using live na sub by (auto simp: list_all_iff)
  have pin': "case player r' of None \<Rightarrow> True | Some b \<Rightarrow> b \<in> set ?st'"
  proof (cases "player r")
    case None
    then show ?thesis by (simp add: pl)
  next
    case (Some b)
    show ?thesis
    proof (cases "b = a")
      case True
      with Some show ?thesis by (simp add: pl)
    next
      case False
      from pin Some have "b \<in> set ?st" by simp
      then have "b \<in> set (take i ?st @ a # drop (Suc i) ?st)"
        using il ia by (metis id_take_nth_drop)
      with False have "b \<in> set ?st'" by auto
      with Some False show ?thesis by (simp add: pl)
    qed
  qed
  have "registry_inv r'"
    unfolding registry_inv_def ids pi st hp using so' le' live' pin' p1 by blast
  with d il ia st ids show ?thesis by blast
qed


lemma clean_loop_player:
  "player (clean_loop is r) = player r"
  by (induction "is" arbitrary: r) (auto simp: Let_def)

lemma clean_loop_pilot_id:
  "pilot_id (clean_loop is r) = pilot_id r"
  by (induction "is" arbitrary: r) (auto simp: Let_def)

lemma clean_loop_heap:
  "player r = Some a \<Longrightarrow> heap (clean_loop is r) a = heap r a"
  by (induction "is" arbitrary: r) (auto simp: Let_def)

lemma clean_loop_stack:
  "player r = Some a \<Longrightarrow>
   pilot_stack (clean_loop is r) =
     (if a \<in> (\<lambda>i. pilot_stack r ! i) ` set is then (pilot_stack r)[0 := a]
      else pilot_stack r)"
proof (induction "is" arbitrary: r)
  case Nil
  then show ?case by simp
next
  case (Cons i "is")
  let ?b = "pilot_stack r ! i"
  show ?case
  proof (cases "?b = a")
    case True
    let ?r1 = "r\<lparr>pilot_stack := (pilot_stack r)[0 := a]\<rparr>"
    have p: "player ?r1 = Some a" using Cons.prems by simp
    have e: "clean_loop (i # is) r = clean_loop is ?r1"
      using True Cons.prems by (simp add: Let_def)
    have "pilot_stack (clean_loop is ?r1) = (pilot_stack r)[0 := a]"
      using Cons.IH [OF p] by simp
    moreover have "a \<in> (\<lambda>i. pilot_stack r ! i) ` set (i # is)" using True by auto
    ultimately show ?thesis using e by simp
  next
    case False
    let ?r2 = "r\<lparr>heap := (heap r)(?b := None)\<rparr>"
    have p: "player ?r2 = Some a" using Cons.prems by simp
    have e: "clean_loop (i # is) r = clean_loop is ?r2"
      using False Cons.prems by (simp add: Let_def)
    have "pilot_stack (clean_loop is ?r2) =
            (if a \<in> (\<lambda>i. pilot_stack r ! i) ` set is then (pilot_stack r)[0 := a]
             else pilot_stack r)"
      using Cons.IH [OF p] by simp
    moreover have "a \<in> (\<lambda>i. pilot_stack r ! i) ` set (i # is)
                     \<longleftrightarrow> a \<in> (\<lambda>i. pilot_stack r ! i) ` set is"
      using False by auto
    ultimately show ?thesis using e by simp
  qed
qed

lemma clean_ok:
  assumes inv: "registry_inv r" and pl: "player r = Some a"
  shows "\<exists>r'. pilots_clean r = Some r' \<and> registry_inv r' \<and> pilot_stack r' = [a]
           \<and> stack_ids r' = [case heap r a of Some i \<Rightarrow> i | None \<Rightarrow> 0]"
proof -
  let ?n = "length (pilot_stack r)"
  let ?r1 = "clean_loop [0..<?n] r"
  from inv pl have mem: "a \<in> set (pilot_stack r)" by (simp add: registry_inv_def)
  then have im: "a \<in> (\<lambda>i. pilot_stack r ! i) ` set [0..<?n]"
    by (auto simp: in_set_conv_nth)
  have ne: "pilot_stack r \<noteq> []" using mem by auto
  have c: "player ?r1 = Some a" "pilot_id ?r1 = pilot_id r" "heap ?r1 a = heap r a"
    by (simp_all add: clean_loop_player clean_loop_pilot_id clean_loop_heap pl)
  have st1: "pilot_stack ?r1 = (pilot_stack r)[0 := a]"
    using clean_loop_stack [OF pl, of "[0..<?n]"] im by simp
  then have t1: "take 1 (pilot_stack ?r1) = [a]" using ne by (cases "pilot_stack r") simp_all
  define r' where "r' = ?r1\<lparr>pilot_stack := [a]\<rparr>"
  have d: "pilots_clean r = Some r'"
    using c(1) st1 ne t1 by (simp add: pilots_clean_def Let_def r'_def)
  from inv mem have la: "heap r a \<noteq> None" and p1: "PLAYER_ID \<le> pilot_id r"
    and le: "list_all (\<lambda>i. i \<le> pilot_id r) (stack_ids r)"
    by (auto simp: registry_inv_def list_all_iff)
  have ha: "heap r' a = heap r a" "pilot_id r' = pilot_id r" "player r' = Some a"
    "pilot_stack r' = [a]"
    using c by (simp_all add: r'_def)
  have ids: "stack_ids r' = [case heap r a of Some i \<Rightarrow> i | None \<Rightarrow> 0]"
    by (simp add: stack_ids_def ha)
  have "(case heap r a of Some i \<Rightarrow> i | None \<Rightarrow> 0) \<in> set (stack_ids r)"
    using mem by (auto simp: stack_ids_def)
  with le have "(case heap r a of Some i \<Rightarrow> i | None \<Rightarrow> 0) \<le> pilot_id r"
    by (auto simp: list_all_iff)
  then have "registry_inv r'"
    using la p1 by (simp add: registry_inv_def ids ha)
  with d ha ids show ?thesis by blast
qed

subsection \<open>The example registries\<close>

lemma reg3_fields:
  "pilot_stack reg3 = [10, 11, 12]" "pilot_id reg3 = 3" "player reg3 = Some 10"
  "heap reg3 10 = Some 1" "heap reg3 11 = Some 2" "heap reg3 12 = Some 3" "heap reg3 13 = None"
  by (simp_all add: reg3_def pilot_create_def registry_init_def Let_def
        PILOT_PLAYER_def PILOT_EMPTY_def PLAYER_ID_def)

lemma reg3_ids: "stack_ids reg3 = [1, 2, 3]"
  by (simp add: stack_ids_def reg3_fields)

lemma reg3_inv: "registry_inv reg3"
  by (simp add: registry_inv_def reg3_ids reg3_fields PLAYER_ID_def)

lemma regbad_fields:
  "pilot_stack regbad = [10, 11]" "pilot_id regbad = 2" "player regbad = Some 11"
  "heap regbad 10 = Some 2" "heap regbad 11 = Some 1"
  by (simp_all add: regbad_def pilot_create_def registry_init_def Let_def
        PILOT_PLAYER_def PILOT_EMPTY_def PLAYER_ID_def)

lemma regbad_ids: "stack_ids regbad = [2, 1]"
  by (simp add: stack_ids_def regbad_fields)

subsection \<open>The invariant and the lookup\<close>

text \<open>
  C8, as amended. The registry invariant (every pointer of the array is to an allocated
  pilot, the ids are strictly ascending along the array and none is above the id
  counter, and the player, if set, is in the array) holds of the empty registry and is
  preserved by: the creation of a pilot without the player flag at a fresh address while
  the id counter does not wrap around, which appends an entry whose id is the counter
  plus one, strictly above every id of the array; the creation of the player in an empty
  registry, which gives the one-entry array of \<^verbatim>\<open>PLAYER_ID\<close>; the destruction of a pilot
  whose pointer is in the array, which drops its slot and shifts the tail down one slot;
  and the bulk cleanup when the player is set, which leaves the single-element array of
  the player. Under the invariant the ids of the array are strictly ascending and
  distinct, and the binary-search lookup returns the index of the entry holding the
  given id, or \<open>-1\<close> exactly when no entry of the array holds it.
\<close>

theorem registry_sorted:
  "registry_inv registry_init
   \<and> (registry_inv r \<and> heap r a = None \<and> fl AND PILOT_PLAYER = 0 \<and> pilot_id r + 1 \<noteq> 0 \<longrightarrow>
        registry_inv (snd (pilot_create (Some a) fl r))
        \<and> stack_ids (snd (pilot_create (Some a) fl r))
            = stack_ids r @ [fst (pilot_create (Some a) fl r)]
        \<and> list_all (\<lambda>i. i < fst (pilot_create (Some a) fl r)) (stack_ids r))
   \<and> (registry_inv r \<and> heap r a = None \<and> fl AND PILOT_PLAYER \<noteq> 0 \<and> pilot_stack r = [] \<longrightarrow>
        registry_inv (snd (pilot_create (Some a) fl r))
        \<and> stack_ids (snd (pilot_create (Some a) fl r)) = [PLAYER_ID])
   \<and> (registry_inv r \<and> a \<in> set (pilot_stack r) \<longrightarrow>
        (\<exists>r' k. pilot_destroy a r = Some r' \<and> registry_inv r'
           \<and> k < length (pilot_stack r) \<and> pilot_stack r ! k = a
           \<and> pilot_stack r' = take k (pilot_stack r) @ drop (Suc k) (pilot_stack r)
           \<and> stack_ids r' = take k (stack_ids r) @ drop (Suc k) (stack_ids r)))
   \<and> (registry_inv r \<and> player r = Some a \<longrightarrow>
        (\<exists>r'. pilots_clean r = Some r' \<and> registry_inv r' \<and> pilot_stack r' = [a]))
   \<and> (registry_inv r \<and> length (pilot_stack r) < 2 ^ 30 \<longrightarrow>
        sorted_wrt (<) (stack_ids r) \<and> distinct (stack_ids r)
        \<and> (\<exists>m. pilot_getStackPos i r = Some m
              \<and> (if m = - 1 then i \<notin> set (stack_ids r)
                  else 0 \<le> m \<and> m < int (length (pilot_stack r))
                       \<and> stack_ids r ! nat m = i)))"
proof (intro conjI impI)
  show "registry_inv registry_init" by (rule registry_init_inv)
next
  assume a: "registry_inv r \<and> heap r a = None \<and> fl AND PILOT_PLAYER = 0
               \<and> pilot_id r + 1 \<noteq> 0"
  then have h: "registry_inv r" "heap r a = None" "fl AND PILOT_PLAYER = 0"
      "pilot_id r + 1 \<noteq> 0" by simp_all
  note c = create_npc [OF h]
  show "registry_inv (snd (pilot_create (Some a) fl r))" by (rule c(1))
  show "stack_ids (snd (pilot_create (Some a) fl r))
            = stack_ids r @ [fst (pilot_create (Some a) fl r)]"
    by (simp only: c(2) c(3))
  show "list_all (\<lambda>i. i < fst (pilot_create (Some a) fl r)) (stack_ids r)"
    by (simp only: c(3) c(4))
next
  assume a: "registry_inv r \<and> heap r a = None \<and> fl AND PILOT_PLAYER \<noteq> 0
               \<and> pilot_stack r = []"
  then have h: "registry_inv r" "heap r a = None" "fl AND PILOT_PLAYER \<noteq> 0"
      "pilot_stack r = []" by simp_all
  show "registry_inv (snd (pilot_create (Some a) fl r))" by (rule create_player(1) [OF h])
  show "stack_ids (snd (pilot_create (Some a) fl r)) = [PLAYER_ID]"
    by (rule create_player(2) [OF h])
next
  assume "registry_inv r \<and> a \<in> set (pilot_stack r)"
  then show "\<exists>r' k. pilot_destroy a r = Some r' \<and> registry_inv r'
           \<and> k < length (pilot_stack r) \<and> pilot_stack r ! k = a
           \<and> pilot_stack r' = take k (pilot_stack r) @ drop (Suc k) (pilot_stack r)
           \<and> stack_ids r' = take k (stack_ids r) @ drop (Suc k) (stack_ids r)"
    using destroy_ok by blast
next
  assume "registry_inv r \<and> player r = Some a"
  then show "\<exists>r'. pilots_clean r = Some r' \<and> registry_inv r' \<and> pilot_stack r' = [a]"
    using clean_ok by blast
next
  assume a: "registry_inv r \<and> length (pilot_stack r) < 2 ^ 30"
  then show "sorted_wrt (<) (stack_ids r)" by (simp add: registry_inv_def)
  then show "distinct (stack_ids r)" by (simp add: strict_sorted_iff)
  from a show "\<exists>m. pilot_getStackPos i r = Some m
              \<and> (if m = - 1 then i \<notin> set (stack_ids r)
                  else 0 \<le> m \<and> m < int (length (pilot_stack r))
                       \<and> stack_ids r ! nat m = i)"
    using getStackPos_correct by blast
qed

theorem registry_sorted_witness:
  "registry_inv registry_init
   \<and> registry_inv (snd (pilot_create (Some 10) PILOT_PLAYER registry_init))
   \<and> stack_ids (snd (pilot_create (Some 10) PILOT_PLAYER registry_init)) = [PLAYER_ID]
   \<and> registry_inv reg3 \<and> stack_ids reg3 = [1, 2, 3]
   \<and> registry_inv (snd (pilot_create (Some 13) 0 reg3))
   \<and> stack_ids (snd (pilot_create (Some 13) 0 reg3))
        = [1, 2, 3] @ [fst (pilot_create (Some 13) 0 reg3)]
   \<and> list_all (\<lambda>i. i < fst (pilot_create (Some 13) 0 reg3)) [1, 2, 3]
   \<and> (\<exists>r'. pilot_destroy 11 reg3 = Some r' \<and> registry_inv r'
          \<and> length (pilot_stack r') = 2)
   \<and> (\<exists>r'. pilots_clean reg3 = Some r' \<and> registry_inv r' \<and> pilot_stack r' = [10])
   \<and> distinct (stack_ids reg3)
   \<and> (\<exists>m. pilot_getStackPos 3 reg3 = Some m \<and> m \<noteq> - 1 \<and> stack_ids reg3 ! nat m = 3)
   \<and> pilot_getStackPos 7 reg3 = Some (- 1)"
proof -
  have i0: "registry_inv registry_init"
    using registry_sorted [where r = registry_init and a = 10 and fl = 0 and i = 0]
    by blast
  have hp: "registry_inv registry_init \<and> heap registry_init 10 = None
              \<and> PILOT_PLAYER AND PILOT_PLAYER \<noteq> 0 \<and> pilot_stack registry_init = []"
    using i0 by (simp add: registry_init_def PILOT_PLAYER_def)
  have cp: "registry_inv (snd (pilot_create (Some 10) PILOT_PLAYER registry_init))
            \<and> stack_ids (snd (pilot_create (Some 10) PILOT_PLAYER registry_init)) = [PLAYER_ID]"
    using registry_sorted [where r = registry_init and a = 10 and fl = PILOT_PLAYER and i = 0]
      hp by blast
  have hn: "registry_inv reg3 \<and> heap reg3 13 = None \<and> (0 :: 32 word) AND PILOT_PLAYER = 0
              \<and> pilot_id reg3 + 1 \<noteq> 0"
    by (simp add: reg3_inv reg3_fields)
  have cn: "registry_inv (snd (pilot_create (Some 13) 0 reg3))
            \<and> stack_ids (snd (pilot_create (Some 13) 0 reg3))
                = stack_ids reg3 @ [fst (pilot_create (Some 13) 0 reg3)]
            \<and> list_all (\<lambda>i. i < fst (pilot_create (Some 13) 0 reg3)) (stack_ids reg3)"
    using registry_sorted [where r = reg3 and a = 13 and fl = 0 and i = 0] hn by blast
  have hd: "registry_inv reg3 \<and> 11 \<in> set (pilot_stack reg3)"
    by (simp add: reg3_inv reg3_fields)
  have "\<exists>r' k. pilot_destroy 11 reg3 = Some r' \<and> registry_inv r'
           \<and> k < length (pilot_stack reg3) \<and> pilot_stack reg3 ! k = 11
           \<and> pilot_stack r' = take k (pilot_stack reg3) @ drop (Suc k) (pilot_stack reg3)
           \<and> stack_ids r' = take k (stack_ids reg3) @ drop (Suc k) (stack_ids reg3)"
    using registry_sorted [where r = reg3 and a = 11 and fl = 0 and i = 0] hd by blast
  then obtain r' k where d: "pilot_destroy 11 reg3 = Some r'" "registry_inv r'"
    "k < length (pilot_stack reg3)"
    "pilot_stack r' = take k (pilot_stack reg3) @ drop (Suc k) (pilot_stack reg3)"
    by blast
  have "length (pilot_stack r') = 2" using d(3) by (simp add: d(4) reg3_fields)
  with d have cd: "\<exists>r'. pilot_destroy 11 reg3 = Some r' \<and> registry_inv r'
          \<and> length (pilot_stack r') = 2" by blast
  have hc: "registry_inv reg3 \<and> player reg3 = Some 10"
    by (simp add: reg3_inv reg3_fields)
  have cc: "\<exists>r'. pilots_clean reg3 = Some r' \<and> registry_inv r' \<and> pilot_stack r' = [10]"
    using registry_sorted [where r = reg3 and a = 10 and fl = 0 and i = 0] hc by blast
  have hl: "registry_inv reg3 \<and> length (pilot_stack reg3) < 2 ^ 30"
    by (simp add: reg3_inv reg3_fields)
  have l3: "distinct (stack_ids reg3)
            \<and> (\<exists>m. pilot_getStackPos 3 reg3 = Some m
                \<and> (if m = - 1 then 3 \<notin> set (stack_ids reg3)
                    else 0 \<le> m \<and> m < int (length (pilot_stack reg3))
                         \<and> stack_ids reg3 ! nat m = 3))"
    using registry_sorted [where r = reg3 and a = 10 and fl = 0 and i = 3] hl by blast
  then obtain m where m: "pilot_getStackPos 3 reg3 = Some m"
    "if m = - 1 then 3 \<notin> set (stack_ids reg3)
     else 0 \<le> m \<and> m < int (length (pilot_stack reg3)) \<and> stack_ids reg3 ! nat m = 3"
    by blast
  have mn: "m \<noteq> - 1" using m(2) by (auto simp: reg3_ids)
  with m(2) have "stack_ids reg3 ! nat m = 3" by simp
  with m(1) mn have c3: "\<exists>m. pilot_getStackPos 3 reg3 = Some m \<and> m \<noteq> - 1
                           \<and> stack_ids reg3 ! nat m = 3" by blast
  have "\<exists>m. pilot_getStackPos 7 reg3 = Some m
          \<and> (if m = - 1 then 7 \<notin> set (stack_ids reg3)
              else 0 \<le> m \<and> m < int (length (pilot_stack reg3))
                   \<and> stack_ids reg3 ! nat m = 7)"
    using registry_sorted [where r = reg3 and a = 10 and fl = 0 and i = 7] hl by blast
  then obtain n where n: "pilot_getStackPos 7 reg3 = Some n"
    "if n = - 1 then 7 \<notin> set (stack_ids reg3)
     else 0 \<le> n \<and> n < int (length (pilot_stack reg3)) \<and> stack_ids reg3 ! nat n = 7"
    by blast
  have "n = - 1"
  proof (rule ccontr)
    assume nn: "n \<noteq> - 1"
    with n(2) have b: "0 \<le> n" "n < 3" "stack_ids reg3 ! nat n = 7"
      by (simp_all add: reg3_fields)
    then have "nat n = 0 \<or> nat n = 1 \<or> nat n = 2" by arith
    with b(3) show False by (auto simp: reg3_ids)
  qed
  with n(1) have c7: "pilot_getStackPos 7 reg3 = Some (- 1)" by simp
  from i0 cp hn cn cd cc l3 c3 c7 show ?thesis by (simp add: reg3_ids)
qed

text \<open>
  C8 as stated fails: the player's id is \<^verbatim>\<open>PLAYER_ID\<close> whatever the counter is, so the
  creation of the player after another pilot appends the id 1 behind the id 2; the array
  is no longer ascending and the binary search does not find the player, who is in it.
\<close>

theorem registry_unsorted_counterexample:
  "stack_ids regbad = [2, 1]
   \<and> \<not> sorted_wrt (<) (stack_ids regbad)
   \<and> 11 \<in> set (pilot_stack regbad) \<and> heap regbad 11 = Some PLAYER_ID
   \<and> pilot_getStackPos PLAYER_ID regbad = Some (- 1)"
  by (simp add: regbad_ids regbad_fields pilot_getStackPos_def PLAYER_ID_def
        getStackPos_loop.simps [of _ _ 0 1] getStackPos_loop.simps [of _ _ 0 "- 1"])

end
